theory Spec2Isabelle
  imports Main "HOL-Library.AList"
begin

section \<open>JavaScript values\<close>

text \<open>
  The lambda \<^verbatim>\<open>write-db-dlq-records-to-s3.js\<close> works on values that come out of
  \<^verbatim>\<open>JSON.parse\<close>, plus \<^verbatim>\<open>undefined\<close> for a property that is not there. An object is
  an association list: a lookup takes the first entry of a key, an assignment replaces the
  entry in place or appends one. Numbers are represented by integers; the program only
  tests them for truthiness and prints them.
\<close>

datatype jsval =
    JUndefined
  | JNull
  | JBool bool
  | JNum int
  | JStr string
  | JArr "jsval list"
  | JObj "(string \<times> jsval) list"

datatype js_error = TypeError string | SyntaxError string | Error string

text \<open>What \<^verbatim>\<open>`${e}`\<close> prints for a thrown error.\<close>

fun error_text :: "js_error \<Rightarrow> string" where
  "error_text (TypeError m) = ''TypeError: '' @ m"
| "error_text (SyntaxError m) = ''SyntaxError: '' @ m"
| "error_text (Error m) = ''Error: '' @ m"

text \<open>Truthiness, and the operator \<^verbatim>\<open>a || b\<close>.\<close>

fun truthy :: "jsval \<Rightarrow> bool" where
  "truthy JUndefined = False"
| "truthy JNull = False"
| "truthy (JBool b) = b"
| "truthy (JNum n) = (n \<noteq> 0)"
| "truthy (JStr s) = (s \<noteq> [])"
| "truthy (JArr _) = True"
| "truthy (JObj _) = True"

definition js_or :: "jsval \<Rightarrow> jsval \<Rightarrow> jsval" where
  "js_or a b = (if truthy a then a else b)"

fun nullish :: "jsval \<Rightarrow> bool" where
  "nullish JUndefined = True"
| "nullish JNull = True"
| "nullish _ = False"

text \<open>
  The property read \<^verbatim>\<open>x.k\<close>, for the property names this program reads (none of them is
  \<^verbatim>\<open>length\<close> or an index): it throws on \<^verbatim>\<open>null\<close> and \<^verbatim>\<open>undefined\<close>, looks the key up in
  an object and is \<^verbatim>\<open>undefined\<close> on every other value. \<^verbatim>\<open>x?.k\<close> is \<^verbatim>\<open>undefined\<close> where
  \<^verbatim>\<open>x.k\<close> throws.
\<close>

fun field :: "jsval \<Rightarrow> string \<Rightarrow> jsval" where
  "field (JObj fs) k = (case map_of fs k of None \<Rightarrow> JUndefined | Some v \<Rightarrow> v)"
| "field _ k = JUndefined"

definition get_prop :: "jsval \<Rightarrow> string \<Rightarrow> js_error + jsval" where
  "get_prop x k =
     (if nullish x then Inl (TypeError (''Cannot read properties of null or undefined, reading '' @ k))
      else Inr (field x k))"

definition opt_prop :: "jsval \<Rightarrow> string \<Rightarrow> jsval" where
  "opt_prop x k = (if nullish x then JUndefined else field x k)"

text \<open>\<^verbatim>\<open>x instanceof Object\<close>, \<^verbatim>\<open>k in x\<close> (for an object or an array and a key that is not an
  index or \<^verbatim>\<open>length\<close>) and \<^verbatim>\<open>Array.isArray(x)\<close>.\<close>

fun instanceof_Object :: "jsval \<Rightarrow> bool" where
  "instanceof_Object (JObj _) = True"
| "instanceof_Object (JArr _) = True"
| "instanceof_Object _ = False"

fun js_in :: "string \<Rightarrow> jsval \<Rightarrow> bool" where
  "js_in k (JObj fs) = (map_of fs k \<noteq> None)"
| "js_in k _ = False"

fun isArray :: "jsval \<Rightarrow> bool" where
  "isArray (JArr _) = True"
| "isArray _ = False"

text \<open>Decimal digits of a number, for template literals and for the index keys of a spread.\<close>

fun show_nat :: "nat \<Rightarrow> string" where
  "show_nat n =
     (if n < 10 then [char_of (48 + n)]
      else show_nat (n div 10) @ [char_of (48 + n mod 10)])"

definition show_int :: "int \<Rightarrow> string" where
  "show_int i = (if i < 0 then ''-'' @ show_nat (nat (- i)) else show_nat (nat i))"

fun join_with :: "string \<Rightarrow> string list \<Rightarrow> string" where
  "join_with sep [] = []"
| "join_with sep [s] = s"
| "join_with sep (s # t # ts) = s @ sep @ join_with sep (t # ts)"

text \<open>The string a value turns into inside a template literal.\<close>

fun js_to_string :: "jsval \<Rightarrow> string" where
  "js_to_string JUndefined = ''undefined''"
| "js_to_string JNull = ''null''"
| "js_to_string (JBool b) = (if b then ''true'' else ''false'')"
| "js_to_string (JNum n) = show_int n"
| "js_to_string (JStr s) = s"
| "js_to_string (JArr xs) =
     join_with '','' (map (\<lambda>x. if nullish x then [] else js_to_string x) xs)"
| "js_to_string (JObj _) = ''[object Object]''"

text \<open>
  The own enumerable properties that \<^verbatim>\<open>{...x}\<close> copies: the fields of an object, the
  elements of an array and the characters of a string under their indices, nothing for any
  other value.
\<close>

fun js_spread :: "jsval \<Rightarrow> (string \<times> jsval) list" where
  "js_spread (JObj fs) = fs"
| "js_spread (JArr xs) = map (\<lambda>(i, x). (show_nat i, x)) (enumerate 0 xs)"
| "js_spread (JStr s) = map (\<lambda>(i, ch). (show_nat i, JStr [ch])) (enumerate 0 s)"
| "js_spread _ = []"

text \<open>Properties listed after a spread in an object literal are assigned in order.\<close>

definition assign_all :: "(string \<times> jsval) list \<Rightarrow> (string \<times> jsval) list \<Rightarrow> (string \<times> jsval) list" where
  "assign_all kvs fs = fold (\<lambda>(k, v). AList.update k v) kvs fs"

section \<open>Collaborators\<close>

text \<open>
  The recognisers, the body parser, the resolver of the full workflow message, the provider
  getters, the object store, the token generator, the date formatter and the serialiser
  live in other packages. They are parameters of the model. A call that can throw returns
  a sum. The token, the current date and the outcome of a write may differ from one record
  of a batch to the next, so they take the position of the record in the batch.
\<close>

record put_params =
  Bucket :: string
  Key :: string
  Body :: string

record collab =
  isSQSRecordLike :: "jsval \<Rightarrow> bool"
  isDLQRecordLike :: "jsval \<Rightarrow> bool"
  parseSQSMessageBody :: "jsval \<Rightarrow> js_error + jsval"
  isEventBridgeEvent :: "jsval \<Rightarrow> bool"
  getCumulusMessageFromExecutionEvent :: "jsval \<Rightarrow> js_error + jsval"
  isMessageWithProvider :: "jsval \<Rightarrow> bool"
  getMessageProviderId :: "jsval \<Rightarrow> jsval"
  uuidv4 :: "nat \<Rightarrow> string"
  moment_utc_format :: "jsval \<Rightarrow> string"
  moment_utc_now_format :: "nat \<Rightarrow> string"
  JSON_stringify :: "jsval \<Rightarrow> string"
  s3PutObject :: "nat \<Rightarrow> put_params \<Rightarrow> js_error + unit"

record process_env =
  system_bucket :: "string option"
  stackName :: "string option"

text \<open>
  Modelled from the spec: \<^verbatim>\<open>constructCollectionId\<close> of \<^verbatim>\<open>@cumulus/message/Collections\<close>
  is not among the sources. The spec gives its result as the composite
  \<^verbatim>\<open>name___version\<close>.
\<close>

definition constructCollectionId :: "jsval \<Rightarrow> jsval \<Rightarrow> jsval" where
  "constructCollectionId name version = JStr (js_to_string name @ ''___'' @ js_to_string version)"

section \<open>The extractors\<close>

definition payloadHasGranules :: "jsval \<Rightarrow> bool" where
  "payloadHasGranules payload =
     (instanceof_Object payload
      \<and> js_in ''granules'' payload
      \<and> isArray (field payload ''granules''))"

definition extractCollectionId :: "jsval \<Rightarrow> jsval" where
  "extractCollectionId message =
     (let collectionName =
            js_or (opt_prop (opt_prop (opt_prop message ''meta'') ''collection'') ''name'') JNull;
          collectionVersion =
            js_or (opt_prop (opt_prop (opt_prop message ''meta'') ''collection'') ''version'') JNull
      in if truthy collectionName \<and> truthy collectionVersion
         then constructCollectionId collectionName collectionVersion
         else JNull)"

definition extractGranules :: "jsval \<Rightarrow> js_error + jsval" where
  "extractGranules message =
     (case get_prop message ''payload'' of
        Inl ex \<Rightarrow> Inl ex
      | Inr payload \<Rightarrow>
          if payloadHasGranules payload then
            (case field payload ''granules'' of
               JArr gs \<Rightarrow> Inr (JArr (map (\<lambda>granule. js_or (opt_prop granule ''granuleId'') JNull) gs))
             | _ \<Rightarrow> Inl (TypeError ''message.payload.granules.map is not a function''))
          else Inr JNull)"

section \<open>Reformatting one dead-letter record\<close>

text \<open>The eight variables that \<^verbatim>\<open>hoistCumulusMessageDetails\<close> declares, all \<^verbatim>\<open>null\<close> at first.\<close>

record details =
  d_collectionId :: jsval
  d_providerId :: jsval
  d_granules :: jsval
  d_executionArn :: jsval
  d_stateMachineArn :: jsval
  d_status :: jsval
  d_time :: jsval
  d_error :: jsval

definition null_details :: details where
  "null_details = \<lparr> d_collectionId = JNull, d_providerId = JNull, d_granules = JNull,
     d_executionArn = JNull, d_stateMachineArn = JNull, d_status = JNull, d_time = JNull,
     d_error = JNull \<rparr>"

text \<open>What the run leaves behind besides its result: the error log and the resolver calls.\<close>

datatype event = LogError string | ResolverCall jsval

text \<open>
  The loop that de-nests the record (lines 97 to 103). It has no bound of its own, so it
  is a partial function: \<open>None\<close> is a loop that never ends. A thrown error ends it with \<open>Inl\<close>.
\<close>

partial_function (option) unwrap_loop ::
  "collab \<Rightarrow> jsval \<Rightarrow> jsval \<Rightarrow> (js_error + jsval \<times> jsval) option" where
  "unwrap_loop c error messageBody =
     (if isSQSRecordLike c messageBody then
        (case (if isDLQRecordLike c messageBody \<and> \<not> truthy error
               then (case get_prop messageBody ''error'' of
                       Inl ex \<Rightarrow> Inl ex
                     | Inr e \<Rightarrow> Inr (js_or e JNull))
               else Inr error) of
           Inl ex \<Rightarrow> Some (Inl ex)
         | Inr error' \<Rightarrow>
             (case parseSQSMessageBody c messageBody of
                Inl ex \<Rightarrow> Some (Inl ex)
              | Inr inner \<Rightarrow> unwrap_loop c error' inner))
      else Some (Inr (error, messageBody)))"

text \<open>Lines 105 to 126: the fields read off the unwrapped payload.\<close>

definition event_details :: "collab \<Rightarrow> jsval \<Rightarrow> js_error + details \<times> event list" where
  "event_details c messageBody =
     (if isEventBridgeEvent c messageBody then
        (let executionArn = js_or (opt_prop (opt_prop messageBody ''detail'') ''executionArn'') JNull;
             stateMachineArn = js_or (opt_prop (opt_prop messageBody ''detail'') ''stateMachineArn'') JNull;
             status = js_or (opt_prop (opt_prop messageBody ''detail'') ''status'') JNull;
             time = js_or (opt_prop messageBody ''time'') JNull;
             d = null_details \<lparr> d_executionArn := executionArn, d_stateMachineArn := stateMachineArn,
                   d_status := status, d_time := time \<rparr>;
             (cumulusMessage, log) =
               (case getCumulusMessageFromExecutionEvent c messageBody of
                  Inl ex \<Rightarrow>
                    (JUndefined,
                     [ResolverCall messageBody,
                      LogError (''could not parse details from DLQ message body due to '' @ error_text ex)])
                | Inr m \<Rightarrow> (m, [ResolverCall messageBody]))
         in if truthy cumulusMessage then
              (case extractGranules cumulusMessage of
                 Inl ex \<Rightarrow> Inl ex
               | Inr granules \<Rightarrow>
                   Inr (d \<lparr> d_collectionId := extractCollectionId cumulusMessage,
                           d_granules := granules,
                           d_providerId :=
                             (if isMessageWithProvider c cumulusMessage
                              then js_or (getMessageProviderId c cumulusMessage) JNull
                              else JNull) \<rparr>,
                        log))
            else Inr (d, log))
      else Inr (null_details,
                [LogError ''could not parse details from DLQ message body, expected EventBridgeEvent'']))"

text \<open>Lines 128 to 138: the record, with the eight fields assigned after the spread.\<close>

definition enriched :: "jsval \<Rightarrow> details \<Rightarrow> jsval" where
  "enriched dlqRecord d =
     JObj (assign_all
       [(''collectionId'', d_collectionId d),
        (''providerId'', d_providerId d),
        (''granules'', d_granules d),
        (''executionArn'', d_executionArn d),
        (''stateMachineArn'', d_stateMachineArn d),
        (''status'', d_status d),
        (''time'', d_time d),
        (''error'', d_error d)]
       (js_spread dlqRecord))"

definition hoistCumulusMessageDetails ::
  "collab \<Rightarrow> jsval \<Rightarrow> (js_error + jsval \<times> event list) option" where
  "hoistCumulusMessageDetails c dlqRecord =
     (case unwrap_loop c JNull dlqRecord of
        None \<Rightarrow> None
      | Some (Inl ex) \<Rightarrow> Some (Inl ex)
      | Some (Inr (error, messageBody)) \<Rightarrow>
          (case event_details c messageBody of
             Inl ex \<Rightarrow> Some (Inl ex)
           | Inr (d, log) \<Rightarrow> Some (Inr (enriched dlqRecord (d \<lparr> d_error := error \<rparr>), log))))"

section \<open>The handler\<close>

text \<open>\<^verbatim>\<open>get(event, 'Records', [])\<close> of lodash: the default stands in for \<^verbatim>\<open>undefined\<close> only.\<close>

definition lodash_get :: "jsval \<Rightarrow> string \<Rightarrow> jsval \<Rightarrow> jsval" where
  "lodash_get object k dflt =
     (if nullish object then dflt
      else if field object k = JUndefined then dflt else field object k)"

text \<open>
  The body of the function mapped over the batch, up to the call of the object store
  (lines 152 to 169): \<open>i\<close> is the position of the record in the batch. The result is the
  argument of \<^verbatim>\<open>s3PutObject\<close> and the log of \<^verbatim>\<open>hoistCumulusMessageDetails\<close>.
\<close>

definition record_put_params ::
  "collab \<Rightarrow> string \<Rightarrow> string \<Rightarrow> nat \<Rightarrow> jsval \<Rightarrow> (js_error + put_params \<times> event list) option" where
  "record_put_params c bucket stack i sqsMessage =
     (case (if isSQSRecordLike c sqsMessage then
              (case hoistCumulusMessageDetails c sqsMessage of
                 None \<Rightarrow> None
               | Some (Inl ex) \<Rightarrow> Some (Inl ex)
               | Some (Inr (massagedMessage, log)) \<Rightarrow>
                   (case get_prop massagedMessage ''executionArn'' of
                      Inl ex \<Rightarrow> Some (Inl ex)
                    | Inr execution \<Rightarrow> Some (Inr (massagedMessage, execution, log))))
            else Some (Inr (sqsMessage, JNull, []))) of
        None \<Rightarrow> None
      | Some (Inl ex) \<Rightarrow> Some (Inl ex)
      | Some (Inr (massagedMessage, execution, log)) \<Rightarrow>
          (let executionName = js_or execution (JStr ''unknown'');
               s3Identifier = js_to_string executionName @ ''-'' @ uuidv4 c i
           in case get_prop massagedMessage ''time'' of
                Inl ex \<Rightarrow> Some (Inl ex)
              | Inr time \<Rightarrow>
                  (let dateString = (if truthy time then moment_utc_format c time
                                     else moment_utc_now_format c i)
                   in Some (Inr (\<lparr> Bucket = bucket,
                                    Key = stack @ ''/dead-letter-archive/sqs/'' @ dateString @ ''/''
                                          @ s3Identifier @ ''.json'',
                                    Body = JSON_stringify c massagedMessage \<rparr>,
                                 log)))))"

definition process_record ::
  "collab \<Rightarrow> string \<Rightarrow> string \<Rightarrow> nat \<Rightarrow> jsval \<Rightarrow> (js_error + unit) option" where
  "process_record c bucket stack i sqsMessage =
     (case record_put_params c bucket stack i sqsMessage of
        None \<Rightarrow> None
      | Some (Inl ex) \<Rightarrow> Some (Inl ex)
      | Some (Inr (params, log)) \<Rightarrow> Some (s3PutObject c i params))"

text \<open>
  \<^verbatim>\<open>Promise.all\<close>: fulfilled when every promise is, rejected as soon as one rejects. Which
  rejection comes first depends on the scheduling, so a rejected batch carries all the
  reasons, in the order of the batch; the runtime reports one of them.
\<close>

definition promise_all :: "(js_error + unit) option list \<Rightarrow> (js_error list + unit) option" where
  "promise_all ps =
     (if None \<in> set ps then None
      else (case [ex. Some (Inl ex) \<leftarrow> ps] of
              [] \<Rightarrow> Some (Inr ())
            | exs \<Rightarrow> Some (Inl exs)))"

definition handler :: "collab \<Rightarrow> process_env \<Rightarrow> jsval \<Rightarrow> (js_error list + unit) option" where
  "handler c env event =
     (case system_bucket env of
        None \<Rightarrow> Some (Inl [Error ''System bucket env var is required.''])
      | Some bucket \<Rightarrow>
          if bucket = [] then Some (Inl [Error ''System bucket env var is required.''])
          else
            (case stackName env of
               None \<Rightarrow>
                 Some (Inl [Error ''Could not determine archive path as stackName env var is undefined.''])
             | Some stack \<Rightarrow>
                 if stack = [] then
                   Some (Inl [Error ''Could not determine archive path as stackName env var is undefined.''])
                 else
                   (case lodash_get event ''Records'' (JArr []) of
                      JArr sqsMessages \<Rightarrow>
                        promise_all
                          (map (\<lambda>(i, sqsMessage). process_record c bucket stack i sqsMessage)
                               (enumerate 0 sqsMessages))
                    | _ \<Rightarrow> Some (Inl [TypeError ''sqsMessages.map is not a function'']))))"

section \<open>Notions of the specification\<close>

text \<open>
  The nesting of a dead-letter record: \<open>envelope c x ls payload\<close> holds when \<open>x\<close> is wrapped
  in the layers \<open>ls\<close>, outermost first, each of them queue-record-like and each with a body
  that parses to the next, around a payload that is not queue-record-like.
\<close>

fun envelope :: "collab \<Rightarrow> jsval \<Rightarrow> jsval list \<Rightarrow> jsval \<Rightarrow> bool" where
  "envelope c x [] payload = (x = payload \<and> \<not> isSQSRecordLike c payload)"
| "envelope c x (l # ls) payload =
     (x = l \<and> isSQSRecordLike c l
      \<and> (case parseSQSMessageBody c l of
            Inl ex \<Rightarrow> False
          | Inr inner \<Rightarrow> envelope c inner ls payload))"

text \<open>The \<^verbatim>\<open>error\<close> field of the outermost layer that has one, \<^verbatim>\<open>null\<close> when none has.\<close>

definition outermost_error_field :: "jsval list \<Rightarrow> jsval" where
  "outermost_error_field ls =
     (case find (js_in ''error'') ls of None \<Rightarrow> JNull | Some l \<Rightarrow> field l ''error'')"

text \<open>The \<^verbatim>\<open>error\<close> field of the outermost failure-record-like layer where it is truthy.\<close>

definition captured_error :: "collab \<Rightarrow> jsval list \<Rightarrow> jsval" where
  "captured_error c ls =
     (case find (\<lambda>l. isDLQRecordLike c l \<and> truthy (field l ''error'')) ls of
        None \<Rightarrow> JNull
      | Some l \<Rightarrow> field l ''error'')"

text \<open>The value at the end of a path of keys, when every key on the path is there.\<close>

fun lookup_path :: "jsval \<Rightarrow> string list \<Rightarrow> jsval option" where
  "lookup_path v [] = Some v"
| "lookup_path (JObj fs) (k # ks) =
     (case map_of fs k of None \<Rightarrow> None | Some v \<Rightarrow> lookup_path v ks)"
| "lookup_path _ (k # ks) = None"

text \<open>The \<^verbatim>\<open>granuleId\<close> attribute of an element, \<^verbatim>\<open>null\<close> for an element without one.\<close>

definition granuleId_or_null :: "jsval \<Rightarrow> jsval" where
  "granuleId_or_null granule =
     (if js_in ''granuleId'' granule then field granule ''granuleId'' else JNull)"

text \<open>The \<^verbatim>\<open>granuleId\<close> attribute of an element where it is truthy, \<^verbatim>\<open>null\<close> otherwise.\<close>

definition truthy_granuleId :: "jsval \<Rightarrow> jsval" where
  "truthy_granuleId granule =
     (if truthy (field granule ''granuleId'') then field granule ''granuleId'' else JNull)"

text \<open>
  The execution identifier and the time resolved for a record of the batch: the values
  that \<^verbatim>\<open>hoistCumulusMessageDetails\<close> reads off the unwrapped payload of a queue-record-like
  record when that payload is an execution event. Nothing is resolved for a payload that is
  no execution event, nor for a record that is not queue-record-like: both are \<^verbatim>\<open>null\<close>
  then.
\<close>

definition resolved_execution :: "collab \<Rightarrow> jsval \<Rightarrow> jsval" where
  "resolved_execution c r =
     (if isSQSRecordLike c r then
        (case unwrap_loop c JNull r of
           Some (Inr (err, payload)) \<Rightarrow>
             if isEventBridgeEvent c payload
             then js_or (field (field payload ''detail'') ''executionArn'') JNull
             else JNull
         | _ \<Rightarrow> JNull)
      else JNull)"

definition resolved_time :: "collab \<Rightarrow> jsval \<Rightarrow> jsval" where
  "resolved_time c r =
     (if isSQSRecordLike c r then
        (case unwrap_loop c JNull r of
           Some (Inr (err, payload)) \<Rightarrow>
             if isEventBridgeEvent c payload then js_or (field payload ''time'') JNull else JNull
         | _ \<Rightarrow> JNull)
      else JNull)"

text \<open>The storage key of the record at position \<open>i\<close>, from its time and execution identifier.\<close>

definition archive_key :: "collab \<Rightarrow> string \<Rightarrow> nat \<Rightarrow> jsval \<Rightarrow> jsval \<Rightarrow> string" where
  "archive_key c stack i time execution =
     stack @ ''/dead-letter-archive/sqs/''
       @ (if truthy time then moment_utc_format c time else moment_utc_now_format c i)
       @ ''/'' @ (if truthy execution then js_to_string execution else ''unknown'')
       @ ''-'' @ uuidv4 c i @ ''.json''"

definition enrichment_keys :: "string list" where
  "enrichment_keys = [''collectionId'', ''providerId'', ''granules'', ''executionArn'',
     ''stateMachineArn'', ''status'', ''time'', ''error'']"

section \<open>Sample records and collaborators\<close>

text \<open>
  Sample data: an execution event, a failure record around an empty object, and the JSON
  texts of both.
\<close>

definition sample_event :: "string \<Rightarrow> string \<Rightarrow> jsval" where
  "sample_event run time =
     JObj [(''detail'', JObj [(''executionArn'', JStr run), (''status'', JStr ''FAILED'')]),
           (''time'', JStr time)]"

definition sample_inner_layer :: jsval where
  "sample_inner_layer = JObj [(''body'', JStr ''{}''), (''error'', JStr ''inner'')]"

definition sample_text_inner :: string where
  "sample_text_inner = ''{\"body\":\"{}\",\"error\":\"inner\"}''"

definition sample_text_run1 :: string where
  "sample_text_run1 =
     ''{\"detail\":{\"executionArn\":\"run1\",\"status\":\"FAILED\"},\"time\":\"2024-03-05T10:11:12Z\"}''"

definition sample_text_run2 :: string where
  "sample_text_run2 =
     ''{\"detail\":{\"executionArn\":\"run2\",\"status\":\"FAILED\"},\"time\":\"2024-03-06T00:00:00Z\"}''"

definition sample_texts :: "(string \<times> jsval) list" where
  "sample_texts =
     [(''{}'', JObj []),
      (sample_text_inner, sample_inner_layer),
      (sample_text_run1, sample_event ''run1'' ''2024-03-05T10:11:12Z''),
      (sample_text_run2, sample_event ''run2'' ''2024-03-06T00:00:00Z'')]"

text \<open>
  Sample records: one whose execution resolves, one whose execution history is gone, one
  whose body is not an execution event, two with a nested failure record (the outer
  \<^verbatim>\<open>error\<close> a text, or empty), and two that are no queue records, one of them with a
  \<^verbatim>\<open>time\<close> of its own.
\<close>

definition sample_record_run1 :: jsval where
  "sample_record_run1 =
     JObj [(''messageId'', JStr ''m1''), (''body'', JStr sample_text_run1),
           (''error'', JStr ''boom''), (''time'', JStr ''stale'')]"

definition sample_record_run2 :: jsval where
  "sample_record_run2 = JObj [(''messageId'', JStr ''m2''), (''body'', JStr sample_text_run2)]"

definition sample_record_plain :: jsval where
  "sample_record_plain = JObj [(''messageId'', JStr ''m3''), (''body'', JStr ''{}'')]"

definition sample_record_nested :: jsval where
  "sample_record_nested = JObj [(''body'', JStr sample_text_inner), (''error'', JStr ''outer'')]"

definition sample_record_empty_error :: jsval where
  "sample_record_empty_error = JObj [(''body'', JStr sample_text_inner), (''error'', JStr [])]"

definition sample_record_opaque :: jsval where
  "sample_record_opaque = JObj [(''note'', JStr ''hello'')]"

definition sample_record_dated :: jsval where
  "sample_record_dated = JObj [(''note'', JStr ''hello''), (''time'', JStr ''2024-01-01T00:00:00Z'')]"

definition sample_message :: jsval where
  "sample_message =
     JObj [(''meta'', JObj [(''collection'', JObj [(''name'', JStr ''MOD09''), (''version'', JStr ''006'')]),
                            (''provider'', JObj [(''id'', JStr ''prov1'')])]),
           (''payload'', JObj [(''granules'', JArr [JObj [(''granuleId'', JStr ''G1'')], JObj []])])]"

text \<open>
  Modelled from the spec: the recognisers, the body parser, the resolver and the provider
  getters are not among the sources. The samples follow the descriptions of the spec: a
  queue record has a body, a failure record is a queue record with an \<^verbatim>\<open>error\<close> field, an
  execution event has a \<^verbatim>\<open>detail\<close>, a message bears a provider when its metadata holds a
  provider object. The parser knows the JSON texts listed in \<open>sample_texts\<close> and throws on
  any other text; the resolver knows the execution \<^verbatim>\<open>run1\<close> and throws on any other.
\<close>

definition sample_isSQSRecordLike :: "jsval \<Rightarrow> bool" where
  "sample_isSQSRecordLike v = (instanceof_Object v \<and> js_in ''body'' v)"

definition sample_parse :: "jsval \<Rightarrow> js_error + jsval" where
  "sample_parse v =
     (case field v ''body'' of
        JStr text \<Rightarrow>
          (case map_of sample_texts text of
             Some inner \<Rightarrow> Inr inner
           | None \<Rightarrow> Inl (SyntaxError ''Unexpected token in JSON''))
      | other \<Rightarrow> Inr other)"

definition sample_resolver :: "jsval \<Rightarrow> js_error + jsval" where
  "sample_resolver ev =
     (if field (field ev ''detail'') ''executionArn'' = JStr ''run1'' then Inr sample_message
      else Inl (Error ''execution history not found''))"

text \<open>
  A serialiser in the manner of \<^verbatim>\<open>JSON.stringify\<close>, for texts without control characters:
  a field that is \<^verbatim>\<open>undefined\<close> is left out of an object.
\<close>

definition sample_quote :: "string \<Rightarrow> string" where
  "sample_quote s =
     ''\"'' @ concat (map (\<lambda>ch. if ch = CHR 0x22 \<or> ch = CHR 0x5C then [CHR 0x5C, ch] else [ch]) s) @ ''\"''"

fun sample_stringify :: "jsval \<Rightarrow> string"
  and sample_stringify_fields :: "(string \<times> jsval) list \<Rightarrow> string list"
  and sample_stringify_elems :: "jsval list \<Rightarrow> string list" where
  "sample_stringify JUndefined = ''null''"
| "sample_stringify JNull = ''null''"
| "sample_stringify (JBool b) = (if b then ''true'' else ''false'')"
| "sample_stringify (JNum n) = show_int n"
| "sample_stringify (JStr s) = sample_quote s"
| "sample_stringify (JArr xs) = ''['' @ join_with '','' (sample_stringify_elems xs) @ '']''"
| "sample_stringify (JObj fs) = ''{'' @ join_with '','' (sample_stringify_fields fs) @ ''}''"
| "sample_stringify_fields [] = []"
| "sample_stringify_fields ((k, JUndefined) # fs) = sample_stringify_fields fs"
| "sample_stringify_fields ((k, v) # fs) =
     (sample_quote k @ '':'' @ sample_stringify v) # sample_stringify_fields fs"
| "sample_stringify_elems [] = []"
| "sample_stringify_elems (x # xs) = sample_stringify x # sample_stringify_elems xs"

text \<open>
  The sample collaborators. The token generator has one token for the first record of a
  batch and another for the records after it; the date formatter keeps the date of an ISO
  time; the object store refuses the write of the second record of a batch.
\<close>

definition sample_collab :: collab where
  "sample_collab =
     \<lparr> isSQSRecordLike = sample_isSQSRecordLike,
       isDLQRecordLike = (\<lambda>v. sample_isSQSRecordLike v \<and> js_in ''error'' v),
       parseSQSMessageBody = sample_parse,
       isEventBridgeEvent = (\<lambda>v. instanceof_Object v \<and> js_in ''detail'' v),
       getCumulusMessageFromExecutionEvent = sample_resolver,
       isMessageWithProvider = (\<lambda>m. instanceof_Object (field (field m ''meta'') ''provider'')),
       getMessageProviderId = (\<lambda>m. field (field (field m ''meta'') ''provider'') ''id''),
       uuidv4 = (\<lambda>i. if i = 0 then ''11111111-1111-4111-8111-111111111111''
                      else ''22222222-2222-4222-8222-222222222222''),
       moment_utc_format = (\<lambda>t. case t of JStr s \<Rightarrow> take 10 s | _ \<Rightarrow> ''Invalid date''),
       moment_utc_now_format = (\<lambda>i. ''2026-11-02''),
       JSON_stringify = sample_stringify,
       s3PutObject = (\<lambda>i params. if i = 1 then Inl (Error ''SlowDown'') else Inr ()) \<rparr>"

definition sample_env :: process_env where
  "sample_env = \<lparr> system_bucket = Some ''bucket'', stackName = Some ''stack'' \<rparr>"

section \<open>Facts about values and objects\<close>

lemma opt_prop_field: "opt_prop x k = field x k"
  by (cases x) (simp_all add: opt_prop_def)

lemma field_absent: "\<not> js_in k m \<Longrightarrow> field m k = JUndefined"
  by (cases m) (auto split: option.splits)

lemma lookup_path_Cons:
  "lookup_path m (k # ks) = (if js_in k m then lookup_path (field m k) ks else None)"
  by (cases m) (auto split: option.splits)

lemma field_lookup_path:
  "field (field (field m a) b) k =
     (case lookup_path m [a, b, k] of None \<Rightarrow> JUndefined | Some v \<Rightarrow> v)"
  by (simp add: lookup_path_Cons field_absent)

text \<open>A later assignment wins; a key that is not assigned keeps the entry of the spread.\<close>

lemma map_of_assign_all:
  "map_of (assign_all kvs fs) k =
     (case map_of (rev kvs) k of Some v \<Rightarrow> Some v | None \<Rightarrow> map_of fs k)"
  unfolding assign_all_def
proof (induction kvs arbitrary: fs)
  case Nil
  show ?case by simp
next
  case (Cons kv kvs)
  obtain k' v' where kv: "kv = (k', v')" by (cases kv)
  show ?case
    by (simp add: kv Cons.IH update_conv' map_add_def split: option.splits)
qed

lemma field_enriched:
  "field (enriched r d) ''collectionId'' = d_collectionId d"
  "field (enriched r d) ''providerId'' = d_providerId d"
  "field (enriched r d) ''granules'' = d_granules d"
  "field (enriched r d) ''executionArn'' = d_executionArn d"
  "field (enriched r d) ''stateMachineArn'' = d_stateMachineArn d"
  "field (enriched r d) ''status'' = d_status d"
  "field (enriched r d) ''time'' = d_time d"
  "field (enriched r d) ''error'' = d_error d"
  by (simp_all add: enriched_def map_of_assign_all)

lemma not_nullish_enriched: "\<not> nullish (enriched r d)"
  by (simp add: enriched_def)

section \<open>Facts about the unwrapping loop and the reformatted record\<close>

lemma envelope_payload: "envelope c x ls p \<Longrightarrow> \<not> isSQSRecordLike c p"
  by (induction ls arbitrary: x) (auto split: sum.splits)

lemma captured_error_none:
  "\<forall>l\<in>set ls. \<not> truthy (field l ''error'') \<Longrightarrow> captured_error c ls = JNull"
  by (induction ls) (auto simp: captured_error_def)

text \<open>
  The loop run on an envelope, from any error variable that is \<^verbatim>\<open>null\<close> or truthy (the
  only values the variable ever holds): it ends at the payload, and keeps an error it
  already has.
\<close>

lemma unwrap_loop_envelope:
  assumes "envelope c x ls p" and "\<forall>l\<in>set ls. isDLQRecordLike c l \<longrightarrow> \<not> nullish l"
    and "truthy e \<or> e = JNull"
  shows "unwrap_loop c e x = Some (Inr (if truthy e then e else captured_error c ls, p))"
  using assms
proof (induction ls arbitrary: x e)
  case Nil
  then show ?case by (subst unwrap_loop.simps) (auto simp: captured_error_def)
next
  case (Cons l ls)
  from Cons.prems(1) obtain inner where
    x: "x = l" and sqs: "isSQSRecordLike c l" and
    parse: "parseSQSMessageBody c l = Inr inner" and rest: "envelope c inner ls p"
    by (auto split: sum.splits)
  from Cons.prems(2) have objs: "\<forall>l\<in>set ls. isDLQRecordLike c l \<longrightarrow> \<not> nullish l"
    and obj: "isDLQRecordLike c l \<Longrightarrow> \<not> nullish l"
    by simp_all
  note IH = Cons.IH [OF rest objs]
  have e': "truthy (js_or (field l ''error'') JNull) \<or> js_or (field l ''error'') JNull = JNull"
    by (simp add: js_or_def)
  show ?case
  proof (cases "isDLQRecordLike c l \<and> \<not> truthy e")
    case True
    then have "unwrap_loop c e x = unwrap_loop c (js_or (field l ''error'') JNull) inner"
      using sqs parse obj by (subst unwrap_loop.simps) (simp add: x get_prop_def)
    also note IH [OF e']
    finally show ?thesis using True Cons.prems(3) by (auto simp: js_or_def captured_error_def)
  next
    case False
    then have "unwrap_loop c e x = unwrap_loop c e inner"
      using sqs parse by (subst unwrap_loop.simps) (auto simp: x)
    also note IH [OF Cons.prems(3)]
    finally show ?thesis using False Cons.prems(3) by (auto simp: captured_error_def)
  qed
qed

lemma hoist_of_unwrap:
  assumes "unwrap_loop c JNull r = Some (Inr (err, p))" and "event_details c p = Inr (d, log)"
  shows "hoistCumulusMessageDetails c r = Some (Inr (enriched r (d \<lparr> d_error := err \<rparr>), log))"
  using assms by (simp add: hoistCumulusMessageDetails_def)

lemma hoist_returns:
  assumes "hoistCumulusMessageDetails c r = Some (Inr (m, log))"
  shows "\<exists>err p d. unwrap_loop c JNull r = Some (Inr (err, p)) \<and> event_details c p = Inr (d, log)
           \<and> m = enriched r (d \<lparr> d_error := err \<rparr>)"
  using assms
  by (auto simp: hoistCumulusMessageDetails_def split: option.splits sum.splits prod.splits)

lemma event_details_unclassified:
  "\<not> isEventBridgeEvent c p \<Longrightarrow>
     event_details c p = Inr (null_details,
       [LogError ''could not parse details from DLQ message body, expected EventBridgeEvent''])"
  by (simp add: event_details_def)

lemma event_details_resolver_throws:
  assumes "isEventBridgeEvent c p" and "getCumulusMessageFromExecutionEvent c p = Inl ex"
  shows "event_details c p =
     Inr (null_details \<lparr> d_executionArn := js_or (field (field p ''detail'') ''executionArn'') JNull,
            d_stateMachineArn := js_or (field (field p ''detail'') ''stateMachineArn'') JNull,
            d_status := js_or (field (field p ''detail'') ''status'') JNull,
            d_time := js_or (field p ''time'') JNull \<rparr>,
          [ResolverCall p,
           LogError (''could not parse details from DLQ message body due to '' @ error_text ex)])"
  using assms by (simp add: event_details_def opt_prop_field)

lemma event_details_classified_fields:
  assumes "event_details c p = Inr (d, log)"
  shows "d_executionArn d = (if isEventBridgeEvent c p
                             then js_or (field (field p ''detail'') ''executionArn'') JNull else JNull)"
    and "d_time d = (if isEventBridgeEvent c p then js_or (field p ''time'') JNull else JNull)"
  using assms
  by (auto simp: event_details_def opt_prop_field null_details_def Let_def
           split: if_splits sum.splits prod.splits)

section \<open>Facts about the request sent to the object store\<close>

lemma record_put_params_sqs:
  assumes "isSQSRecordLike c r" and "hoistCumulusMessageDetails c r = Some (Inr (m, log))"
  shows "record_put_params c bucket stack i r =
           Some (Inr (\<lparr> Bucket = bucket,
                        Key = archive_key c stack i (field m ''time'') (field m ''executionArn''),
                        Body = JSON_stringify c m \<rparr>, log))"
proof -
  from hoist_returns [OF assms(2)] have "\<not> nullish m"
    by (auto simp: not_nullish_enriched)
  with assms show ?thesis
    by (simp add: record_put_params_def get_prop_def archive_key_def js_or_def Let_def)
qed

lemma record_put_params_opaque:
  assumes "\<not> isSQSRecordLike c r" and "\<not> nullish r"
  shows "record_put_params c bucket stack i r =
           Some (Inr (\<lparr> Bucket = bucket,
                        Key = archive_key c stack i (field r ''time'') JNull,
                        Body = JSON_stringify c r \<rparr>, []))"
  using assms
  by (simp add: record_put_params_def get_prop_def archive_key_def js_or_def Let_def)

lemma process_record_of_params:
  "record_put_params c bucket stack i r = Some (Inr (params, log)) \<Longrightarrow>
     process_record c bucket stack i r = Some (s3PutObject c i params)"
  by (simp add: process_record_def)

lemma record_put_params_sqs_returns:
  assumes "isSQSRecordLike c r" and "record_put_params c bucket stack i r = Some (Inr (params, log))"
  shows "\<exists>m. hoistCumulusMessageDetails c r = Some (Inr (m, log))"
  using assms
  by (auto simp: record_put_params_def Let_def
           split: option.splits sum.splits prod.splits if_splits)

lemma record_put_params_opaque_returns:
  assumes "\<not> isSQSRecordLike c r" and "record_put_params c bucket stack i r = Some (Inr (params, log))"
  shows "\<not> nullish r"
  using assms
  by (auto simp: record_put_params_def Let_def get_prop_def
           split: option.splits sum.splits prod.splits if_splits)

text \<open>Every key ends with the token of its record and \<^verbatim>\<open>.json\<close>.\<close>

lemma record_put_params_key_token:
  assumes "record_put_params c bucket stack i r = Some (Inr (params, log))"
  shows "\<exists>pre. Key params = pre @ uuidv4 c i @ ''.json''"
proof (cases "isSQSRecordLike c r")
  case True
  from record_put_params_sqs_returns [OF True assms] obtain m where
    h: "hoistCumulusMessageDetails c r = Some (Inr (m, log))" by blast
  note put = record_put_params_sqs [OF True h, of bucket stack i]
  from assms [unfolded put]
  have "Key params = Key \<lparr> Bucket = bucket,
          Key = archive_key c stack i (field m ''time'') (field m ''executionArn''),
          Body = JSON_stringify c m \<rparr>"
    by (simp only: option.inject sum.inject prod.inject)
  then have "Key params = archive_key c stack i (field m ''time'') (field m ''executionArn'')"
    by (simp only: put_params.select_convs)
  then have "Key params =
      (stack @ ''/dead-letter-archive/sqs/''
        @ (if truthy (field m ''time'') then moment_utc_format c (field m ''time'')
           else moment_utc_now_format c i)
        @ ''/'' @ (if truthy (field m ''executionArn'') then js_to_string (field m ''executionArn'')
                   else ''unknown'') @ ''-'') @ uuidv4 c i @ ''.json''"
    by (simp only: archive_key_def append_assoc)
  then show ?thesis by - (rule exI, assumption)
next
  case False
  note put = record_put_params_opaque [OF False record_put_params_opaque_returns [OF False assms],
         of bucket stack i]
  from assms [unfolded put]
  have "Key params = Key \<lparr> Bucket = bucket,
          Key = archive_key c stack i (field r ''time'') JNull,
          Body = JSON_stringify c r \<rparr>"
    by (simp only: option.inject sum.inject prod.inject)
  then have "Key params = archive_key c stack i (field r ''time'') JNull"
    by (simp only: put_params.select_convs)
  then have "Key params =
      (stack @ ''/dead-letter-archive/sqs/''
        @ (if truthy (field r ''time'') then moment_utc_format c (field r ''time'')
           else moment_utc_now_format c i)
        @ ''/'' @ (if truthy JNull then js_to_string JNull else ''unknown'') @ ''-'')
        @ uuidv4 c i @ ''.json''"
    by (simp only: archive_key_def append_assoc)
  then show ?thesis by - (rule exI, assumption)
qed

text \<open>
  The key of a write: its date is that of the resolved time for a queue-record-like record
  and that of the record's own \<^verbatim>\<open>time\<close> field for any other record.
\<close>

lemma record_put_params_key:
  assumes "record_put_params c bucket stack i r = Some (Inr (params, log))"
  shows "Key params =
           archive_key c stack i
             (if isSQSRecordLike c r then resolved_time c r else field r ''time'')
             (resolved_execution c r)"
proof (cases "isSQSRecordLike c r")
  case True
  from record_put_params_sqs_returns [OF True assms] obtain m where
    h: "hoistCumulusMessageDetails c r = Some (Inr (m, log))" by blast
  from hoist_returns [OF h] obtain err p d where
    u: "unwrap_loop c JNull r = Some (Inr (err, p))" and e: "event_details c p = Inr (d, log)"
    and m: "m = enriched r (d \<lparr> d_error := err \<rparr>)"
    by blast
  have t: "field m ''time'' = resolved_time c r"
    using True u event_details_classified_fields(2) [OF e]
    by (simp add: m field_enriched resolved_time_def)
  have x: "field m ''executionArn'' = resolved_execution c r"
    using True u event_details_classified_fields(1) [OF e]
    by (simp add: m field_enriched resolved_execution_def)
  from record_put_params_sqs [OF True h, of bucket stack i] assms True show ?thesis
    by (auto simp: t x)
next
  case False
  from record_put_params_opaque [OF False record_put_params_opaque_returns [OF False assms],
         of bucket stack i] assms False
  show ?thesis
    by (auto simp: resolved_execution_def)
qed

text \<open>What is resolved is \<^verbatim>\<open>null\<close> or truthy: a resolved value is present when it is not \<^verbatim>\<open>null\<close>.\<close>

lemma js_or_null_present: "truthy (js_or v JNull) \<longleftrightarrow> js_or v JNull \<noteq> JNull"
  by (cases v) (auto simp: js_or_def)

lemma resolved_time_present: "truthy (resolved_time c r) \<longleftrightarrow> resolved_time c r \<noteq> JNull"
  by (auto simp: resolved_time_def js_or_null_present
           split: option.splits sum.splits prod.splits)

lemma resolved_execution_present:
  "truthy (resolved_execution c r) \<longleftrightarrow> resolved_execution c r \<noteq> JNull"
  by (auto simp: resolved_execution_def js_or_null_present
           split: option.splits sum.splits prod.splits)

lemma same_length_suffix:
  assumes "a @ t @ s = b @ u @ s" and "length t = length (u :: 'a list)"
  shows "t = u"
proof -
  from assms(1) have "(a @ t) @ s = (b @ u) @ s" by simp
  then have "a @ t = b @ u" by (simp only: append_same_eq)
  with assms(2) show ?thesis by simp
qed

section \<open>Facts about the reformatted record\<close>

lemma enriched_other:
  "k \<notin> set enrichment_keys \<Longrightarrow> field (enriched r d) k = field (JObj (js_spread r)) k"
  by (simp add: enriched_def map_of_assign_all enrichment_keys_def)

lemma js_in_enriched:
  "js_in k (enriched r d) = (k \<in> set enrichment_keys \<or> js_in k (JObj (js_spread r)))"
  by (auto simp: enriched_def map_of_assign_all enrichment_keys_def split: option.splits)

section \<open>Facts about the batch\<close>

lemma promise_all_rejects:
  assumes "None \<notin> set ps" and "Some (Inl ex) \<in> set ps"
  shows "\<exists>exs. promise_all ps = Some (Inl exs) \<and> ex \<in> set exs"
proof -
  let ?exs = "[ex. Some (Inl ex) \<leftarrow> ps]"
  from assms(2) have "ex \<in> set ?exs" by force
  then show ?thesis
    using assms(1) by (cases ?exs) (auto simp: promise_all_def)
qed

lemma promise_all_resolves:
  assumes "\<forall>p\<in>set ps. p = Some (Inr ())"
  shows "promise_all ps = Some (Inr ())"
proof -
  from assms have e: "[ex. Some (Inl ex) \<leftarrow> ps] = []"
    by (induction ps) auto
  from assms have "None \<notin> set ps" by auto
  then show ?thesis unfolding promise_all_def e by simp
qed

lemma handler_batch:
  assumes "system_bucket env = Some bucket" and "bucket \<noteq> []"
    and "stackName env = Some stack" and "stack \<noteq> []"
    and "lodash_get event ''Records'' (JArr []) = JArr rs"
  shows "handler c env event =
           promise_all (map (\<lambda>(i, sqsMessage). process_record c bucket stack i sqsMessage)
                            (enumerate 0 rs))"
  using assms by (simp add: handler_def)

lemma batch_set:
  "p \<in> set (map (\<lambda>(i, x). f i x) (enumerate 0 rs)) \<longleftrightarrow> (\<exists>i<length rs. p = f i (rs ! i))"
proof
  assume "p \<in> set (map (\<lambda>(i, x). f i x) (enumerate 0 rs))"
  then obtain q where q: "q \<in> set (enumerate 0 rs)" and p: "p = (\<lambda>(i, x). f i x) q"
    by auto
  obtain i x where qx: "q = (i, x)" by (cases q)
  from q qx have "i < length rs" and "rs ! i = x"
    by (simp_all add: in_set_enumerate_eq)
  with p qx show "\<exists>i<length rs. p = f i (rs ! i)" by auto
next
  assume "\<exists>i<length rs. p = f i (rs ! i)"
  then obtain i where i: "i < length rs" and p: "p = f i (rs ! i)" by blast
  from i have "(i, rs ! i) \<in> set (enumerate 0 rs)"
    by (simp add: in_set_enumerate_eq)
  then have "(\<lambda>(i, x). f i x) (i, rs ! i) \<in> (\<lambda>(i, x). f i x) ` set (enumerate 0 rs)"
    by (rule imageI)
  with p show "p \<in> set (map (\<lambda>(i, x). f i x) (enumerate 0 rs))" by simp
qed

lemma process_record_None:
  "process_record c bucket stack i r = None \<longleftrightarrow> record_put_params c bucket stack i r = None"
  by (auto simp: process_record_def split: option.splits sum.splits prod.splits)

section \<open>The samples, evaluated\<close>

lemmas sample_defs =
  sample_collab_def sample_isSQSRecordLike_def sample_parse_def sample_resolver_def
  sample_texts_def sample_text_inner_def sample_text_run1_def sample_text_run2_def
  sample_event_def sample_inner_layer_def sample_message_def
  sample_record_run1_def sample_record_run2_def sample_record_plain_def
  sample_record_nested_def sample_record_empty_error_def sample_record_opaque_def
  sample_record_dated_def

lemma sample_dlq_objects: "isDLQRecordLike sample_collab l \<Longrightarrow> \<not> nullish l"
  by (cases l) (simp_all add: sample_collab_def sample_isSQSRecordLike_def)

lemma sample_envelope_nested:
  "envelope sample_collab sample_record_nested [sample_record_nested, sample_inner_layer] (JObj [])"
  by (simp add: sample_defs)

lemma sample_envelope_empty_error:
  "envelope sample_collab sample_record_empty_error
     [sample_record_empty_error, sample_inner_layer] (JObj [])"
  by (simp add: sample_defs)

lemma sample_envelope_run1:
  "envelope sample_collab sample_record_run1 [sample_record_run1]
     (sample_event ''run1'' ''2024-03-05T10:11:12Z'')"
  by (simp add: sample_defs)

lemma sample_envelope_run2:
  "envelope sample_collab sample_record_run2 [sample_record_run2]
     (sample_event ''run2'' ''2024-03-06T00:00:00Z'')"
  by (simp add: sample_defs)

lemma sample_envelope_plain:
  "envelope sample_collab sample_record_plain [sample_record_plain] (JObj [])"
  by (simp add: sample_defs)

lemma sample_unwrap_empty_error:
  "unwrap_loop sample_collab JNull sample_record_empty_error = Some (Inr (JStr ''inner'', JObj []))"
  using unwrap_loop_envelope [OF sample_envelope_empty_error, of JNull] sample_dlq_objects
  by (simp add: captured_error_def) (simp add: sample_defs)

lemma sample_unwrap_run1:
  "unwrap_loop sample_collab JNull sample_record_run1 =
     Some (Inr (JStr ''boom'', sample_event ''run1'' ''2024-03-05T10:11:12Z''))"
  using unwrap_loop_envelope [OF sample_envelope_run1, of JNull] sample_dlq_objects
  by (simp add: captured_error_def) (simp add: sample_defs)

lemma sample_unwrap_run2:
  "unwrap_loop sample_collab JNull sample_record_run2 =
     Some (Inr (JNull, sample_event ''run2'' ''2024-03-06T00:00:00Z''))"
  using unwrap_loop_envelope [OF sample_envelope_run2, of JNull] sample_dlq_objects
  by (simp add: captured_error_def) (simp add: sample_defs)

lemma sample_unwrap_plain:
  "unwrap_loop sample_collab JNull sample_record_plain = Some (Inr (JNull, JObj []))"
  using unwrap_loop_envelope [OF sample_envelope_plain, of JNull] sample_dlq_objects
  by (simp add: captured_error_def) (simp add: sample_defs)

lemma sample_sqs:
  "isSQSRecordLike sample_collab sample_record_run1"
  "isSQSRecordLike sample_collab sample_record_run2"
  "isSQSRecordLike sample_collab sample_record_plain"
  "\<not> isSQSRecordLike sample_collab sample_record_opaque"
  "\<not> isSQSRecordLike sample_collab JNull"
  by (simp_all add: sample_defs)

lemma sample_not_sqs_dated: "\<not> isSQSRecordLike sample_collab sample_record_dated"
  by (simp add: sample_defs)

lemma sample_put_dated:
  "record_put_params sample_collab ''bucket'' ''stack'' 0 sample_record_dated =
     Some (Inr (\<lparr> Bucket = ''bucket'',
                  Key = ''stack/dead-letter-archive/sqs/2024-01-01/unknown-11111111-1111-4111-8111-111111111111.json'',
                  Body = JSON_stringify sample_collab sample_record_dated \<rparr>, []))"
proof -
  have n: "\<not> nullish sample_record_dated" by (simp add: sample_record_dated_def)
  have f: "field sample_record_dated ''time'' = JStr ''2024-01-01T00:00:00Z''"
    by (simp add: sample_record_dated_def)
  from record_put_params_opaque [OF sample_not_sqs_dated n, of "''bucket''" "''stack''" 0]
  show ?thesis
    by (simp add: archive_key_def f) (simp add: sample_collab_def)
qed

lemma sample_hoist_plain:
  "hoistCumulusMessageDetails sample_collab sample_record_plain =
     Some (Inr (JObj [(''messageId'', JStr ''m3''), (''body'', JStr ''{}''),
                      (''collectionId'', JNull), (''providerId'', JNull), (''granules'', JNull),
                      (''executionArn'', JNull), (''stateMachineArn'', JNull), (''status'', JNull),
                      (''time'', JNull), (''error'', JNull)],
                [LogError ''could not parse details from DLQ message body, expected EventBridgeEvent'']))"
proof -
  have "event_details sample_collab (JObj []) = Inr (null_details,
       [LogError ''could not parse details from DLQ message body, expected EventBridgeEvent''])"
    by (rule event_details_unclassified) (simp add: sample_collab_def)
  from hoist_of_unwrap [OF sample_unwrap_plain this] show ?thesis
    by (simp add: enriched_def assign_all_def null_details_def sample_record_plain_def)
qed

lemma sample_hoist_run2:
  "hoistCumulusMessageDetails sample_collab sample_record_run2 =
     Some (Inr (JObj [(''messageId'', JStr ''m2''), (''body'', JStr sample_text_run2),
                      (''collectionId'', JNull), (''providerId'', JNull), (''granules'', JNull),
                      (''executionArn'', JStr ''run2''), (''stateMachineArn'', JNull),
                      (''status'', JStr ''FAILED''), (''time'', JStr ''2024-03-06T00:00:00Z''),
                      (''error'', JNull)],
                [ResolverCall (sample_event ''run2'' ''2024-03-06T00:00:00Z''),
                 LogError ''could not parse details from DLQ message body due to Error: execution history not found'']))"
proof -
  have ev: "isEventBridgeEvent sample_collab (sample_event ''run2'' ''2024-03-06T00:00:00Z'')"
    by (simp add: sample_collab_def sample_event_def)
  have res: "getCumulusMessageFromExecutionEvent sample_collab (sample_event ''run2'' ''2024-03-06T00:00:00Z'')
               = Inl (Error ''execution history not found'')"
    by (simp add: sample_collab_def sample_event_def sample_resolver_def)
  from hoist_of_unwrap [OF sample_unwrap_run2 event_details_resolver_throws [OF ev res]]
  show ?thesis
    by (simp add: enriched_def assign_all_def null_details_def sample_record_run2_def
          sample_event_def js_or_def)
qed

lemma sample_hoist_run1:
  "hoistCumulusMessageDetails sample_collab sample_record_run1 =
     Some (Inr (JObj [(''messageId'', JStr ''m1''), (''body'', JStr sample_text_run1),
                      (''error'', JStr ''boom''), (''time'', JStr ''2024-03-05T10:11:12Z''),
                      (''collectionId'', JStr ''MOD09___006''), (''providerId'', JStr ''prov1''),
                      (''granules'', JArr [JStr ''G1'', JNull]),
                      (''executionArn'', JStr ''run1''), (''stateMachineArn'', JNull),
                      (''status'', JStr ''FAILED'')],
                [ResolverCall (sample_event ''run1'' ''2024-03-05T10:11:12Z'')]))"
proof -
  have "event_details sample_collab (sample_event ''run1'' ''2024-03-05T10:11:12Z'') =
          Inr (\<lparr> d_collectionId = JStr ''MOD09___006'', d_providerId = JStr ''prov1'',
                 d_granules = JArr [JStr ''G1'', JNull], d_executionArn = JStr ''run1'',
                 d_stateMachineArn = JNull, d_status = JStr ''FAILED'',
                 d_time = JStr ''2024-03-05T10:11:12Z'', d_error = JNull \<rparr>,
               [ResolverCall (sample_event ''run1'' ''2024-03-05T10:11:12Z'')])"
    by (simp add: event_details_def sample_collab_def sample_event_def sample_resolver_def
          sample_message_def opt_prop_field js_or_def null_details_def extractGranules_def
          get_prop_def payloadHasGranules_def extractCollectionId_def constructCollectionId_def)
  from hoist_of_unwrap [OF sample_unwrap_run1 this] show ?thesis
    by (simp add: enriched_def assign_all_def sample_record_run1_def)
qed

lemma sample_put_run1:
  "record_put_params sample_collab ''bucket'' ''stack'' i sample_record_run1 =
     Some (Inr (\<lparr> Bucket = ''bucket'',
                  Key = ''stack/dead-letter-archive/sqs/2024-03-05/run1-'' @ uuidv4 sample_collab i @ ''.json'',
                  Body = JSON_stringify sample_collab
                    (JObj [(''messageId'', JStr ''m1''), (''body'', JStr sample_text_run1),
                      (''error'', JStr ''boom''), (''time'', JStr ''2024-03-05T10:11:12Z''),
                      (''collectionId'', JStr ''MOD09___006''), (''providerId'', JStr ''prov1''),
                      (''granules'', JArr [JStr ''G1'', JNull]),
                      (''executionArn'', JStr ''run1''), (''stateMachineArn'', JNull),
                      (''status'', JStr ''FAILED'')]) \<rparr>,
                [ResolverCall (sample_event ''run1'' ''2024-03-05T10:11:12Z'')]))"
  using record_put_params_sqs [OF sample_sqs(1) sample_hoist_run1, of "''bucket''" "''stack''" i]
  by (simp add: archive_key_def) (simp add: sample_collab_def)

lemma sample_put_run2:
  "record_put_params sample_collab ''bucket'' ''stack'' i sample_record_run2 =
     Some (Inr (\<lparr> Bucket = ''bucket'',
                  Key = ''stack/dead-letter-archive/sqs/2024-03-06/run2-'' @ uuidv4 sample_collab i @ ''.json'',
                  Body = JSON_stringify sample_collab
                    (JObj [(''messageId'', JStr ''m2''), (''body'', JStr sample_text_run2),
                      (''collectionId'', JNull), (''providerId'', JNull), (''granules'', JNull),
                      (''executionArn'', JStr ''run2''), (''stateMachineArn'', JNull),
                      (''status'', JStr ''FAILED''), (''time'', JStr ''2024-03-06T00:00:00Z''),
                      (''error'', JNull)]) \<rparr>,
                [ResolverCall (sample_event ''run2'' ''2024-03-06T00:00:00Z''),
                 LogError ''could not parse details from DLQ message body due to Error: execution history not found'']))"
  using record_put_params_sqs [OF sample_sqs(2) sample_hoist_run2, of "''bucket''" "''stack''" i]
  by (simp add: archive_key_def) (simp add: sample_collab_def)

lemma sample_put_plain:
  "record_put_params sample_collab ''bucket'' ''stack'' i sample_record_plain =
     Some (Inr (\<lparr> Bucket = ''bucket'',
                  Key = ''stack/dead-letter-archive/sqs/2026-11-02/unknown-'' @ uuidv4 sample_collab i @ ''.json'',
                  Body = JSON_stringify sample_collab
                    (JObj [(''messageId'', JStr ''m3''), (''body'', JStr ''{}''),
                      (''collectionId'', JNull), (''providerId'', JNull), (''granules'', JNull),
                      (''executionArn'', JNull), (''stateMachineArn'', JNull), (''status'', JNull),
                      (''time'', JNull), (''error'', JNull)]) \<rparr>,
                [LogError ''could not parse details from DLQ message body, expected EventBridgeEvent'']))"
  using record_put_params_sqs [OF sample_sqs(3) sample_hoist_plain, of "''bucket''" "''stack''" i]
  by (simp add: archive_key_def) (simp add: sample_collab_def)

lemma sample_write:
  "s3PutObject sample_collab 1 params = Inl (Error ''SlowDown'')"
  "s3PutObject sample_collab (Suc 0) params = Inl (Error ''SlowDown'')"
  "i \<noteq> 1 \<Longrightarrow> s3PutObject sample_collab i params = Inr ()"
  by (simp_all add: sample_collab_def)

lemma sample_process_run1:
  "i \<noteq> 1 \<Longrightarrow> process_record sample_collab ''bucket'' ''stack'' i sample_record_run1 = Some (Inr ())"
  by (simp add: process_record_of_params [OF sample_put_run1] sample_write)

lemma sample_process_run2:
  "process_record sample_collab ''bucket'' ''stack'' 1 sample_record_run2
     = Some (Inl (Error ''SlowDown''))"
  "process_record sample_collab ''bucket'' ''stack'' (Suc 0) sample_record_run2
     = Some (Inl (Error ''SlowDown''))"
  by (simp_all add: process_record_of_params [OF sample_put_run2] sample_write)

lemma sample_process_plain:
  "i \<noteq> 1 \<Longrightarrow> process_record sample_collab ''bucket'' ''stack'' i sample_record_plain = Some (Inr ())"
  by (simp add: process_record_of_params [OF sample_put_plain] sample_write)

lemma sample_env_set:
  "system_bucket sample_env = Some ''bucket''" "stackName sample_env = Some ''stack''"
  by (simp_all add: sample_env_def)

lemma sample_handler_three:
  "handler sample_collab sample_env
     (JObj [(''Records'', JArr [sample_record_run1, sample_record_run2, sample_record_plain])])
   = Some (Inl [Error ''SlowDown''])"
proof -
  have r: "lodash_get (JObj [(''Records'', JArr [sample_record_run1, sample_record_run2, sample_record_plain])])
             ''Records'' (JArr []) = JArr [sample_record_run1, sample_record_run2, sample_record_plain]"
    by (simp add: lodash_get_def)
  have e: "enumerate 0 [sample_record_run1, sample_record_run2, sample_record_plain]
             = [(0, sample_record_run1), (1, sample_record_run2), (2, sample_record_plain)]"
    by (simp add: enumerate_eq_zip upt_rec)
  show ?thesis
    unfolding handler_batch [OF sample_env_set(1) _ sample_env_set(2) _ r, simplified] e
    by (simp add: sample_process_run1 sample_process_run2 sample_process_plain promise_all_def)
qed

section \<open>The unwrapping loop\<close>

text \<open>
  C1, as the code has it. On an envelope (none of its failure-record-like layers being
  \<^verbatim>\<open>null\<close> or \<^verbatim>\<open>undefined\<close>, whose \<^verbatim>\<open>error\<close> cannot be read), the loop of
  \<^verbatim>\<open>hoistCumulusMessageDetails\<close> returns: it ends at the payload, which is not
  queue-record-like, and the error it has captured is the \<^verbatim>\<open>error\<close> field of the outermost
  failure-record-like layer where that field is truthy. The \<^verbatim>\<open>error\<close> fields of the layers
  inside that one are ignored. The captured error is \<^verbatim>\<open>null\<close> when no layer has a truthy
  \<^verbatim>\<open>error\<close> field, in particular when no layer has the field at all.
\<close>

theorem unwrap_loop_captures_outermost_truthy_error:
  assumes "envelope c x ls payload"
    and "\<forall>l\<in>set ls. isDLQRecordLike c l \<longrightarrow> \<not> nullish l"
  shows "unwrap_loop c JNull x = Some (Inr (captured_error c ls, payload))
         \<and> \<not> isSQSRecordLike c payload
         \<and> ((\<forall>l\<in>set ls. \<not> truthy (field l ''error'')) \<longrightarrow> captured_error c ls = JNull)"
  using unwrap_loop_envelope [OF assms, of JNull] envelope_payload [OF assms(1)]
    captured_error_none [of ls c]
  by simp

text \<open>
  A record with the error \<^verbatim>\<open>outer\<close> around a failure record with the error \<^verbatim>\<open>inner\<close> around
  an empty object: the loop returns the empty object and the error \<^verbatim>\<open>outer\<close>.
\<close>

theorem unwrap_loop_captures_outermost_truthy_error_witness:
  "envelope sample_collab sample_record_nested [sample_record_nested, sample_inner_layer] (JObj [])
   \<and> \<not> nullish sample_record_nested \<and> \<not> nullish sample_inner_layer
   \<and> unwrap_loop sample_collab JNull sample_record_nested = Some (Inr (JStr ''outer'', JObj []))
   \<and> \<not> isSQSRecordLike sample_collab (JObj [])"
proof -
  have env: "envelope sample_collab sample_record_nested
               [sample_record_nested, sample_inner_layer] (JObj [])"
    by (rule sample_envelope_nested)
  have objs: "\<forall>l\<in>set [sample_record_nested, sample_inner_layer].
                isDLQRecordLike sample_collab l \<longrightarrow> \<not> nullish l"
    using sample_dlq_objects by blast
  have "captured_error sample_collab [sample_record_nested, sample_inner_layer] = JStr ''outer''"
    by (simp add: captured_error_def sample_defs)
  with unwrap_loop_captures_outermost_truthy_error [OF env objs] env
  show ?thesis by (simp add: sample_record_nested_def sample_inner_layer_def)
qed

text \<open>
  The same record with an empty text as its outer \<^verbatim>\<open>error\<close>: the outermost layer that has
  an \<^verbatim>\<open>error\<close> field is the record itself, with the empty text, and the loop returns the
  error of the layer inside it.
\<close>

theorem unwrap_loop_empty_error_counterexample:
  "envelope sample_collab sample_record_empty_error
     [sample_record_empty_error, sample_inner_layer] (JObj [])
   \<and> outermost_error_field [sample_record_empty_error, sample_inner_layer] = JStr []
   \<and> unwrap_loop sample_collab JNull sample_record_empty_error
       = Some (Inr (JStr ''inner'', JObj []))"
  using sample_envelope_empty_error sample_unwrap_empty_error
  by (simp add: outermost_error_field_def sample_record_empty_error_def)

section \<open>Classification and resolution\<close>

text \<open>
  C2. For a queue-record-like record whose unwrapped payload is not an execution event, the
  reformatted record has \<^verbatim>\<open>executionArn\<close>, \<^verbatim>\<open>stateMachineArn\<close>, \<^verbatim>\<open>status\<close> and \<^verbatim>\<open>time\<close>
  all \<^verbatim>\<open>null\<close>, the resolver of the full message is not called (no call in the log), and
  the record goes on to the object store: the request carries the serialised reformatted
  record, and the outcome of the record is the outcome of that write.
\<close>

theorem unclassified_payload_archived_with_null_fields:
  assumes "isSQSRecordLike c r"
    and "unwrap_loop c JNull r = Some (Inr (err, payload))"
    and "\<not> isEventBridgeEvent c payload"
  shows "\<exists>m log params.
           hoistCumulusMessageDetails c r = Some (Inr (m, log))
           \<and> m = enriched r (null_details \<lparr> d_error := err \<rparr>)
           \<and> field m ''executionArn'' = JNull \<and> field m ''stateMachineArn'' = JNull
           \<and> field m ''status'' = JNull \<and> field m ''time'' = JNull
           \<and> (\<forall>ev. ResolverCall ev \<notin> set log)
           \<and> record_put_params c bucket stack i r = Some (Inr (params, log))
           \<and> Body params = JSON_stringify c m
           \<and> process_record c bucket stack i r = Some (s3PutObject c i params)"
proof -
  let ?log = "[LogError ''could not parse details from DLQ message body, expected EventBridgeEvent'']"
  let ?m = "enriched r (null_details \<lparr> d_error := err \<rparr>)"
  have hoist: "hoistCumulusMessageDetails c r = Some (Inr (?m, ?log))"
    by (rule hoist_of_unwrap [OF assms(2) event_details_unclassified [OF assms(3)]])
  note put = record_put_params_sqs [OF assms(1) hoist, of bucket stack i]
  have fields: "field ?m ''executionArn'' = JNull" "field ?m ''stateMachineArn'' = JNull"
    "field ?m ''status'' = JNull" "field ?m ''time'' = JNull"
    by (simp_all add: field_enriched null_details_def)
  have nolog: "\<forall>ev. ResolverCall ev \<notin> set ?log" by simp
  from hoist put fields nolog process_record_of_params [OF put] show ?thesis
    by (intro exI conjI) (assumption | simp)+
qed

text \<open>
  The sample record whose body is \<^verbatim>\<open>{}\<close>: every enrichment field is \<^verbatim>\<open>null\<close>, the key has
  the current date and \<^verbatim>\<open>unknown\<close>, and the write succeeds.
\<close>

theorem unclassified_payload_archived_with_null_fields_witness:
  "isSQSRecordLike sample_collab sample_record_plain
   \<and> unwrap_loop sample_collab JNull sample_record_plain = Some (Inr (JNull, JObj []))
   \<and> \<not> isEventBridgeEvent sample_collab (JObj [])
   \<and> (\<exists>m log params.
         hoistCumulusMessageDetails sample_collab sample_record_plain = Some (Inr (m, log))
         \<and> m = JObj [(''messageId'', JStr ''m3''), (''body'', JStr ''{}''),
                      (''collectionId'', JNull), (''providerId'', JNull), (''granules'', JNull),
                      (''executionArn'', JNull), (''stateMachineArn'', JNull), (''status'', JNull),
                      (''time'', JNull), (''error'', JNull)]
         \<and> log = [LogError ''could not parse details from DLQ message body, expected EventBridgeEvent'']
         \<and> record_put_params sample_collab ''bucket'' ''stack'' 0 sample_record_plain
             = Some (Inr (params, log))
         \<and> Key params = ''stack/dead-letter-archive/sqs/2026-11-02/unknown-11111111-1111-4111-8111-111111111111.json''
         \<and> Body params = sample_stringify m
         \<and> process_record sample_collab ''bucket'' ''stack'' 0 sample_record_plain = Some (Inr ()))"
proof -
  have sqs: "isSQSRecordLike sample_collab sample_record_plain"
    by (simp add: sample_defs)
  have ev: "\<not> isEventBridgeEvent sample_collab (JObj [])"
    by (simp add: sample_collab_def)
  from unclassified_payload_archived_with_null_fields
         [OF sqs sample_unwrap_plain ev, of "''bucket''" "''stack''" 0]
  obtain m log params where
    h: "hoistCumulusMessageDetails sample_collab sample_record_plain = Some (Inr (m, log))"
    and put: "record_put_params sample_collab ''bucket'' ''stack'' 0 sample_record_plain
                = Some (Inr (params, log))"
    and body: "Body params = JSON_stringify sample_collab m"
    and run: "process_record sample_collab ''bucket'' ''stack'' 0 sample_record_plain
                = Some (s3PutObject sample_collab 0 params)"
    by blast
  from h sample_hoist_plain have m: "m = JObj [(''messageId'', JStr ''m3''), (''body'', JStr ''{}''),
                      (''collectionId'', JNull), (''providerId'', JNull), (''granules'', JNull),
                      (''executionArn'', JNull), (''stateMachineArn'', JNull), (''status'', JNull),
                      (''time'', JNull), (''error'', JNull)]"
    and log: "log = [LogError ''could not parse details from DLQ message body, expected EventBridgeEvent'']"
    by simp_all
  from record_put_params_sqs [OF sqs h, of "''bucket''" "''stack''" 0] put
  have "Key params = archive_key sample_collab ''stack'' 0 (field m ''time'') (field m ''executionArn'')"
    by auto
  then have key: "Key params = ''stack/dead-letter-archive/sqs/2026-11-02/unknown-11111111-1111-4111-8111-111111111111.json''"
    by (simp add: m archive_key_def sample_collab_def)
  from sqs sample_unwrap_plain ev h m log put key body run show ?thesis
    by (simp add: sample_collab_def)
qed



section \<open>The batch\<close>

text \<open>
  C4. With both environment variables set and a batch \<open>rs\<close> under \<^verbatim>\<open>Records\<close>: when the write
  of some record fails (and no record keeps the loop running for ever), the handler rejects,
  and the failure of that write is among the reasons, whatever the other writes did; when
  the write of every record of the batch succeeds, the handler resolves, with no value.
\<close>

theorem handler_fails_when_a_write_fails:
  assumes "system_bucket env = Some bucket" and "bucket \<noteq> []"
    and "stackName env = Some stack" and "stack \<noteq> []"
    and "lodash_get event ''Records'' (JArr []) = JArr rs"
  shows "((\<forall>j<length rs. record_put_params c bucket stack j (rs ! j) \<noteq> None)
          \<longrightarrow> (\<forall>i params log ex.
                 i < length rs
                 \<and> record_put_params c bucket stack i (rs ! i) = Some (Inr (params, log))
                 \<and> s3PutObject c i params = Inl ex
                 \<longrightarrow> (\<exists>exs. handler c env event = Some (Inl exs) \<and> ex \<in> set exs)))
         \<and> ((\<forall>i<length rs. \<exists>params log.
                 record_put_params c bucket stack i (rs ! i) = Some (Inr (params, log))
                 \<and> s3PutObject c i params = Inr ())
             \<longrightarrow> handler c env event = Some (Inr ()))"
proof (intro conjI impI allI)
  let ?ps = "map (\<lambda>(i, sqsMessage). process_record c bucket stack i sqsMessage) (enumerate 0 rs)"
  note h = handler_batch [OF assms, of c]
  fix i params log ex
  assume fin: "\<forall>j<length rs. record_put_params c bucket stack j (rs ! j) \<noteq> None"
    and w: "i < length rs
            \<and> record_put_params c bucket stack i (rs ! i) = Some (Inr (params, log))
            \<and> s3PutObject c i params = Inl ex"
  from fin have "None \<notin> set ?ps"
    by (auto simp: batch_set process_record_None [symmetric] simp del: set_map)
  moreover from w have "process_record c bucket stack i (rs ! i) = Some (Inl ex)"
    by (simp add: process_record_def)
  with w have "Some (Inl ex) \<in> set ?ps"
    unfolding batch_set by (intro exI [of _ i]) simp
  ultimately show "\<exists>exs. handler c env event = Some (Inl exs) \<and> ex \<in> set exs"
    unfolding h by (rule promise_all_rejects)
next
  let ?ps = "map (\<lambda>(i, sqsMessage). process_record c bucket stack i sqsMessage) (enumerate 0 rs)"
  note h = handler_batch [OF assms, of c]
  assume ok: "\<forall>i<length rs. \<exists>params log.
                 record_put_params c bucket stack i (rs ! i) = Some (Inr (params, log))
                 \<and> s3PutObject c i params = Inr ()"
  have "\<forall>p\<in>set ?ps. p = Some (Inr ())"
  proof
    fix p assume "p \<in> set ?ps"
    then obtain i where i: "i < length rs" and p: "p = process_record c bucket stack i (rs ! i)"
      unfolding batch_set by blast
    from ok i obtain params log where
      "record_put_params c bucket stack i (rs ! i) = Some (Inr (params, log))"
      and "s3PutObject c i params = Inr ()"
      by blast
    then show "p = Some (Inr ())" by (simp add: p process_record_def)
  qed
  then show "handler c env event = Some (Inr ())"
    unfolding h by (rule promise_all_resolves)
qed

text \<open>
  A batch of three sample records where the object store refuses the write of the second
  one only: the handler rejects with that failure. A batch of the first record alone is
  written, and the handler resolves.
\<close>

theorem handler_fails_when_a_write_fails_witness:
  "system_bucket sample_env = Some ''bucket'' \<and> ''bucket'' \<noteq> []
   \<and> stackName sample_env = Some ''stack'' \<and> ''stack'' \<noteq> []
   \<and> lodash_get (JObj [(''Records'', JArr [sample_record_run1, sample_record_run2, sample_record_plain])])
        ''Records'' (JArr []) = JArr [sample_record_run1, sample_record_run2, sample_record_plain]
   \<and> (\<exists>params log.
         record_put_params sample_collab ''bucket'' ''stack'' 1 sample_record_run2
           = Some (Inr (params, log))
         \<and> s3PutObject sample_collab 1 params = Inl (Error ''SlowDown''))
   \<and> process_record sample_collab ''bucket'' ''stack'' 0 sample_record_run1 = Some (Inr ())
   \<and> process_record sample_collab ''bucket'' ''stack'' 2 sample_record_plain = Some (Inr ())
   \<and> handler sample_collab sample_env
        (JObj [(''Records'', JArr [sample_record_run1, sample_record_run2, sample_record_plain])])
       = Some (Inl [Error ''SlowDown''])
   \<and> lodash_get (JObj [(''Records'', JArr [sample_record_run1])]) ''Records'' (JArr [])
       = JArr [sample_record_run1]
   \<and> handler sample_collab sample_env (JObj [(''Records'', JArr [sample_record_run1])])
       = Some (Inr ())"
proof -
  let ?ev3 = "JObj [(''Records'', JArr [sample_record_run1, sample_record_run2, sample_record_plain])]"
  let ?ev1 = "JObj [(''Records'', JArr [sample_record_run1])]"
  have b: "''bucket'' \<noteq> []" and s: "''stack'' \<noteq> []" by simp_all
  have r3: "lodash_get ?ev3 ''Records'' (JArr [])
              = JArr [sample_record_run1, sample_record_run2, sample_record_plain]"
    by (simp add: lodash_get_def)
  have r1: "lodash_get ?ev1 ''Records'' (JArr []) = JArr [sample_record_run1]"
    by (simp add: lodash_get_def)
  have ok1: "\<forall>i<length [sample_record_run1]. \<exists>params log.
               record_put_params sample_collab ''bucket'' ''stack'' i ([sample_record_run1] ! i)
                 = Some (Inr (params, log))
               \<and> s3PutObject sample_collab i params = Inr ()"
    by (simp add: sample_put_run1 sample_write)
  from handler_fails_when_a_write_fails
         [OF sample_env_set(1) b sample_env_set(2) s r1, of sample_collab] ok1
  have h1: "handler sample_collab sample_env ?ev1 = Some (Inr ())"
    by blast
  have w: "\<exists>params log.
         record_put_params sample_collab ''bucket'' ''stack'' 1 sample_record_run2
           = Some (Inr (params, log))
         \<and> s3PutObject sample_collab 1 params = Inl (Error ''SlowDown'')"
    by (simp add: sample_put_run2 sample_write)
  from sample_env_set b s r3 r1 w h1 sample_handler_three
    sample_process_run1 [of 0] sample_process_plain [of 2]
  show ?thesis by simp
qed

section \<open>Granules and collection\<close>

text \<open>
  C5, as the code has it. For a resolved message (one that is not \<^verbatim>\<open>null\<close> or
  \<^verbatim>\<open>undefined\<close>): when its payload is an object whose \<^verbatim>\<open>granules\<close> field is an array,
  \<^verbatim>\<open>extractGranules\<close> maps each element to its \<^verbatim>\<open>granuleId\<close> where that is truthy and to
  \<^verbatim>\<open>null\<close> otherwise (no such attribute, or an empty or otherwise falsy one); when the
  payload has no such array, the result is \<^verbatim>\<open>null\<close> and not the empty list.
\<close>

theorem extractGranules_truthy_ids:
  assumes "\<not> nullish message"
  shows "(\<forall>pf gs. field message ''payload'' = JObj pf \<and> map_of pf ''granules'' = Some (JArr gs)
            \<longrightarrow> extractGranules message = Inr (JArr (map truthy_granuleId gs)))
         \<and> ((\<nexists>pf gs. field message ''payload'' = JObj pf \<and> map_of pf ''granules'' = Some (JArr gs))
            \<longrightarrow> extractGranules message = Inr JNull \<and> extractGranules message \<noteq> Inr (JArr []))"
proof (rule conjI; intro allI impI)
  fix pf gs
  assume h: "field message ''payload'' = JObj pf \<and> map_of pf ''granules'' = Some (JArr gs)"
  have "(\<lambda>granule. js_or (opt_prop granule ''granuleId'') JNull) = truthy_granuleId"
    by (rule ext) (simp add: js_or_def opt_prop_field truthy_granuleId_def)
  with h assms show "extractGranules message = Inr (JArr (map truthy_granuleId gs))"
    by (simp add: extractGranules_def get_prop_def payloadHasGranules_def)
next
  assume h: "\<nexists>pf gs. field message ''payload'' = JObj pf \<and> map_of pf ''granules'' = Some (JArr gs)"
  have "\<not> payloadHasGranules (field message ''payload'')"
  proof
    assume p: "payloadHasGranules (field message ''payload'')"
    then obtain pf where pf: "field message ''payload'' = JObj pf"
      by (cases "field message ''payload''") (simp_all add: payloadHasGranules_def)
    with p obtain gs where "map_of pf ''granules'' = Some (JArr gs)"
      by (cases "map_of pf ''granules''"; cases "the (map_of pf ''granules'')")
         (simp_all add: payloadHasGranules_def)
    with pf h show False by blast
  qed
  with assms show "extractGranules message = Inr JNull \<and> extractGranules message \<noteq> Inr (JArr [])"
    by (simp add: extractGranules_def get_prop_def)
qed

text \<open>
  The example of the spec, \<^verbatim>\<open>[{granuleId: "G1"}, {}]\<close>, gives \<^verbatim>\<open>["G1", null]\<close>, and a
  payload without \<^verbatim>\<open>granules\<close> gives \<^verbatim>\<open>null\<close>.
\<close>

theorem extractGranules_truthy_ids_witness:
  "\<not> nullish (JObj [(''payload'', JObj [(''granules'', JArr [JObj [(''granuleId'', JStr ''G1'')], JObj []])])])
   \<and> extractGranules (JObj [(''payload'', JObj [(''granules'', JArr [JObj [(''granuleId'', JStr ''G1'')], JObj []])])])
       = Inr (JArr [JStr ''G1'', JNull])
   \<and> \<not> nullish (JObj [(''payload'', JObj [])])
   \<and> extractGranules (JObj [(''payload'', JObj [])]) = Inr JNull"
  using extractGranules_truthy_ids [of "JObj [(''payload'', JObj [(''granules'', JArr [JObj [(''granuleId'', JStr ''G1'')], JObj []])])]"]
        extractGranules_truthy_ids [of "JObj [(''payload'', JObj [])]"]
  by (simp add: truthy_granuleId_def)

text \<open>
  An element whose \<^verbatim>\<open>granuleId\<close> is the empty text has the attribute, and
  \<^verbatim>\<open>extractGranules\<close> gives \<^verbatim>\<open>null\<close> for it, not the attribute.
\<close>

theorem extractGranules_empty_id_counterexample:
  "extractGranules (JObj [(''payload'', JObj [(''granules'', JArr [JObj [(''granuleId'', JStr [])]])])])
     = Inr (JArr [JNull])
   \<and> map granuleId_or_null [JObj [(''granuleId'', JStr [])]] = [JStr []]"
  by (simp add: extractGranules_def get_prop_def payloadHasGranules_def js_or_def opt_prop_def
        granuleId_or_null_def)

text \<open>
  C6, as the code has it. \<^verbatim>\<open>extractCollectionId\<close> returns the composite
  \<^verbatim>\<open>name___version\<close> when the metadata of the message holds a collection name and a
  collection version that are both truthy, and \<^verbatim>\<open>null\<close> in every other case: a name or a
  version that is missing, \<^verbatim>\<open>null\<close>, or empty.
\<close>

theorem extractCollectionId_truthy:
  "extractCollectionId message =
     (case (lookup_path message [''meta'', ''collection'', ''name''],
            lookup_path message [''meta'', ''collection'', ''version'']) of
        (Some name, Some version) \<Rightarrow>
          if truthy name \<and> truthy version
          then JStr (js_to_string name @ ''___'' @ js_to_string version)
          else JNull
      | _ \<Rightarrow> JNull)"
  unfolding extractCollectionId_def opt_prop_field field_lookup_path
  by (simp add: js_or_def constructCollectionId_def Let_def split: option.splits)

text \<open>The example of the spec: \<^verbatim>\<open>MOD09\<close> and \<^verbatim>\<open>006\<close> give \<^verbatim>\<open>MOD09___006\<close>.\<close>

theorem extractCollectionId_truthy_witness:
  "extractCollectionId (JObj [(''meta'', JObj [(''collection'', JObj [(''name'', JStr ''MOD09''), (''version'', JStr ''006'')])])])
     = JStr ''MOD09___006''"
  using extractCollectionId_truthy [of "JObj [(''meta'', JObj [(''collection'', JObj [(''name'', JStr ''MOD09''), (''version'', JStr ''006'')])])]"]
  by simp

text \<open>
  A collection with the name \<^verbatim>\<open>MOD09\<close> and an empty version has both fields, and
  \<^verbatim>\<open>extractCollectionId\<close> returns \<^verbatim>\<open>null\<close>.
\<close>

theorem extractCollectionId_empty_version_counterexample:
  "lookup_path (JObj [(''meta'', JObj [(''collection'', JObj [(''name'', JStr ''MOD09''), (''version'', JStr [])])])])
      [''meta'', ''collection'', ''name''] = Some (JStr ''MOD09'')
   \<and> lookup_path (JObj [(''meta'', JObj [(''collection'', JObj [(''name'', JStr ''MOD09''), (''version'', JStr [])])])])
      [''meta'', ''collection'', ''version''] = Some (JStr [])
   \<and> extractCollectionId (JObj [(''meta'', JObj [(''collection'', JObj [(''name'', JStr ''MOD09''), (''version'', JStr [])])])])
      = JNull"
  by (simp add: extractCollectionId_def opt_prop_def js_or_def)

section \<open>Storage keys\<close>

text \<open>
  C7, as the code has it. Whenever the handler gets as far as the write of a record, the key
  of the write is the stack name, \<^verbatim>\<open>/dead-letter-archive/sqs/\<close>, the date, a slash, the
  execution component, a dash, the token of this record and \<^verbatim>\<open>.json\<close>. The execution
  component is the resolved execution identifier, or \<^verbatim>\<open>unknown\<close> when none was resolved.
  For a queue-record-like record the date is the formatted resolved time when one was
  resolved and the formatted current time otherwise. For a record that is not
  queue-record-like, for which nothing is resolved, the date is that of the record's own
  \<^verbatim>\<open>time\<close> field when that is truthy, and the current date only otherwise. The
  formatting itself, \<^verbatim>\<open>moment.utc(...).format('YYYY-MM-DD')\<close>, is the date library's.
\<close>

theorem storage_key_shape:
  assumes "record_put_params c bucket stack i r = Some (Inr (params, log))"
  shows "Key params =
           stack @ ''/dead-letter-archive/sqs/''
             @ (if isSQSRecordLike c r
                then (if resolved_time c r \<noteq> JNull then moment_utc_format c (resolved_time c r)
                      else moment_utc_now_format c i)
                else (if truthy (field r ''time'') then moment_utc_format c (field r ''time'')
                      else moment_utc_now_format c i))
             @ ''/''
             @ (if resolved_execution c r \<noteq> JNull then js_to_string (resolved_execution c r)
                else ''unknown'')
             @ ''-'' @ uuidv4 c i @ ''.json''"
  using record_put_params_key [OF assms]
    resolved_time_present [of c r] resolved_execution_present [of c r]
  by (simp add: archive_key_def)

text \<open>
  The sample record of run 1 is stored under the date of its event and its execution
  identifier, the sample record with an empty body under the current date and
  \<^verbatim>\<open>unknown\<close>, and the sample record that is no queue record and has a \<^verbatim>\<open>time\<close> of its
  own under the date of that time and \<^verbatim>\<open>unknown\<close>.
\<close>

theorem storage_key_shape_witness:
  "(\<exists>params log. record_put_params sample_collab ''bucket'' ''stack'' 0 sample_record_run1
        = Some (Inr (params, log))
      \<and> Key params = ''stack/dead-letter-archive/sqs/2024-03-05/run1-11111111-1111-4111-8111-111111111111.json'')
   \<and> isSQSRecordLike sample_collab sample_record_run1
   \<and> resolved_time sample_collab sample_record_run1 = JStr ''2024-03-05T10:11:12Z''
   \<and> resolved_execution sample_collab sample_record_run1 = JStr ''run1''
   \<and> (\<exists>params log. record_put_params sample_collab ''bucket'' ''stack'' 1 sample_record_plain
        = Some (Inr (params, log))
      \<and> Key params = ''stack/dead-letter-archive/sqs/2026-11-02/unknown-22222222-2222-4222-8222-222222222222.json'')
   \<and> isSQSRecordLike sample_collab sample_record_plain
   \<and> resolved_time sample_collab sample_record_plain = JNull
   \<and> resolved_execution sample_collab sample_record_plain = JNull
   \<and> (\<exists>params log. record_put_params sample_collab ''bucket'' ''stack'' 0 sample_record_dated
        = Some (Inr (params, log))
      \<and> Key params = ''stack/dead-letter-archive/sqs/2024-01-01/unknown-11111111-1111-4111-8111-111111111111.json'')
   \<and> \<not> isSQSRecordLike sample_collab sample_record_dated
   \<and> field sample_record_dated ''time'' = JStr ''2024-01-01T00:00:00Z''
   \<and> resolved_execution sample_collab sample_record_dated = JNull"
proof -
  have t1: "resolved_time sample_collab sample_record_run1 = JStr ''2024-03-05T10:11:12Z''"
    and x1: "resolved_execution sample_collab sample_record_run1 = JStr ''run1''"
    using sample_sqs(1) sample_unwrap_run1
    by (simp_all add: resolved_time_def resolved_execution_def js_or_def sample_collab_def
          sample_event_def)
  have t2: "resolved_time sample_collab sample_record_plain = JNull"
    and x2: "resolved_execution sample_collab sample_record_plain = JNull"
    using sample_sqs(3) sample_unwrap_plain
    by (simp_all add: resolved_time_def resolved_execution_def js_or_def sample_collab_def)
  have t3: "field sample_record_dated ''time'' = JStr ''2024-01-01T00:00:00Z''"
    by (simp add: sample_record_dated_def)
  have x3: "resolved_execution sample_collab sample_record_dated = JNull"
    using sample_not_sqs_dated by (simp add: resolved_execution_def)
  from storage_key_shape [OF sample_put_run1 [of 0]] storage_key_shape [OF sample_put_plain [of 1]]
    storage_key_shape [OF sample_put_dated]
    sample_put_run1 [of 0] sample_put_plain [of 1] sample_put_dated
    sample_sqs(1) sample_sqs(3) sample_not_sqs_dated t1 x1 t2 x2 t3 x3
  show ?thesis
    by (simp add: sample_collab_def)
qed

text \<open>
  A record that is no queue record and has a \<^verbatim>\<open>time\<close> of its own: no time is resolved for
  it, the current date is 2026-11-02, and its key carries the date of its own
  \<^verbatim>\<open>time\<close>.
\<close>

theorem storage_key_own_time_counterexample:
  "\<not> isSQSRecordLike sample_collab sample_record_dated
   \<and> resolved_time sample_collab sample_record_dated = JNull
   \<and> moment_utc_now_format sample_collab 0 = ''2026-11-02''
   \<and> record_put_params sample_collab ''bucket'' ''stack'' 0 sample_record_dated =
       Some (Inr (\<lparr> Bucket = ''bucket'',
                    Key = ''stack/dead-letter-archive/sqs/2024-01-01/unknown-11111111-1111-4111-8111-111111111111.json'',
                    Body = sample_stringify sample_record_dated \<rparr>, []))"
  using sample_not_sqs_dated sample_put_dated
  by (simp add: resolved_time_def) (simp add: sample_collab_def)

text \<open>
  C8. Two records of one invocation, at the positions \<open>i\<close> and \<open>j\<close> of the batch, whose tokens
  differ, get different keys, whatever the records are; they may be the same record twice.
  The tokens are version-4 UUIDs in their textual form, which has 36 characters.
\<close>

theorem storage_keys_distinct:
  assumes "record_put_params c bucket stack i r = Some (Inr (params, log))"
    and "record_put_params c bucket stack j r' = Some (Inr (params', log'))"
    and "uuidv4 c i \<noteq> uuidv4 c j"
    and "length (uuidv4 c i) = 36" and "length (uuidv4 c j) = 36"
  shows "Key params \<noteq> Key params'"
proof
  assume eq: "Key params = Key params'"
  from record_put_params_key_token [OF assms(1)] obtain a where
    "Key params = a @ uuidv4 c i @ ''.json''" by blast
  moreover from record_put_params_key_token [OF assms(2)] obtain b where
    "Key params' = b @ uuidv4 c j @ ''.json''" by blast
  ultimately have "a @ uuidv4 c i @ ''.json'' = b @ uuidv4 c j @ ''.json''"
    using eq by simp
  then have "uuidv4 c i = uuidv4 c j"
    by (rule same_length_suffix) (simp add: assms(4,5))
  with assms(3) show False by simp
qed

text \<open>The same sample record at the positions 0 and 1 of a batch gets two keys.\<close>

theorem storage_keys_distinct_witness:
  "(\<exists>params log params' log'.
      record_put_params sample_collab ''bucket'' ''stack'' 0 sample_record_plain
        = Some (Inr (params, log))
      \<and> record_put_params sample_collab ''bucket'' ''stack'' 1 sample_record_plain
        = Some (Inr (params', log'))
      \<and> Key params \<noteq> Key params')
   \<and> uuidv4 sample_collab 0 \<noteq> uuidv4 sample_collab 1
   \<and> length (uuidv4 sample_collab 0) = 36 \<and> length (uuidv4 sample_collab 1) = 36"
proof -
  have d: "uuidv4 sample_collab 0 \<noteq> uuidv4 sample_collab 1"
    and l0: "length (uuidv4 sample_collab 0) = 36" and l1: "length (uuidv4 sample_collab 1) = 36"
    by (simp_all add: sample_collab_def)
  from storage_keys_distinct [OF sample_put_plain [of 0] sample_put_plain [of 1] d l0 l1]
    sample_put_plain [of 0] sample_put_plain [of 1] d l0 l1
  show ?thesis by simp
qed

section \<open>Records that are no queue records\<close>

text \<open>
  C9, as the code has it. A record of the batch that is not queue-record-like, and is not
  \<^verbatim>\<open>null\<close> or \<^verbatim>\<open>undefined\<close>, is sent to the object store as it is: the body of the request is
  the serialised record, no error log is written, and the execution component of the key is
  \<^verbatim>\<open>unknown\<close>. The date of the key is that of the record's own \<^verbatim>\<open>time\<close> field when it
  has a truthy one, and the current date otherwise.
\<close>

theorem opaque_record_archived_unmodified:
  assumes "\<not> isSQSRecordLike c r" and "\<not> nullish r"
  shows "\<exists>params.
           record_put_params c bucket stack i r = Some (Inr (params, []))
           \<and> Body params = JSON_stringify c r
           \<and> Key params =
               stack @ ''/dead-letter-archive/sqs/''
                 @ (if truthy (field r ''time'') then moment_utc_format c (field r ''time'')
                    else moment_utc_now_format c i)
                 @ ''/unknown-'' @ uuidv4 c i @ ''.json''
           \<and> process_record c bucket stack i r = Some (s3PutObject c i params)"
proof -
  note put = record_put_params_opaque [OF assms, of bucket stack i]
  from put process_record_of_params [OF put] show ?thesis
    by (simp add: archive_key_def)
qed

text \<open>The sample record without a body is written as it is, under \<^verbatim>\<open>unknown\<close>.\<close>

theorem opaque_record_archived_unmodified_witness:
  "\<not> isSQSRecordLike sample_collab sample_record_opaque
   \<and> \<not> nullish sample_record_opaque
   \<and> (\<exists>params.
        record_put_params sample_collab ''bucket'' ''stack'' 0 sample_record_opaque
          = Some (Inr (params, []))
        \<and> Body params = sample_stringify sample_record_opaque
        \<and> Key params = ''stack/dead-letter-archive/sqs/2026-11-02/unknown-11111111-1111-4111-8111-111111111111.json''
        \<and> process_record sample_collab ''bucket'' ''stack'' 0 sample_record_opaque = Some (Inr ()))"
proof -
  have n: "\<not> nullish sample_record_opaque" by (simp add: sample_record_opaque_def)
  have f: "field sample_record_opaque ''time'' = JUndefined" by (simp add: sample_record_opaque_def)
  from opaque_record_archived_unmodified [OF sample_sqs(4) n, of "''bucket''" "''stack''" 0]
    sample_sqs(4) n
  show ?thesis
    by (simp add: f) (simp add: sample_collab_def)
qed

text \<open>
  The record \<^verbatim>\<open>null\<close> is not queue-record-like, and it is not archived: reading its
  \<^verbatim>\<open>time\<close> throws, and the handler rejects without a write.
\<close>

theorem null_record_counterexample:
  "\<not> isSQSRecordLike sample_collab JNull
   \<and> record_put_params sample_collab ''bucket'' ''stack'' 0 JNull
       = Some (Inl (TypeError ''Cannot read properties of null or undefined, reading time''))
   \<and> handler sample_collab sample_env (JObj [(''Records'', JArr [JNull])])
       = Some (Inl [TypeError ''Cannot read properties of null or undefined, reading time''])"
  using sample_sqs(5)
  by (simp add: record_put_params_def get_prop_def handler_def sample_env_def lodash_get_def
        promise_all_def process_record_def enumerate_eq_zip)

section \<open>The fields of the reformatted record\<close>

text \<open>
  C10. The record that \<^verbatim>\<open>hoistCumulusMessageDetails\<close> returns has all eight enrichment fields.
  Each of them holds the value computed from the unwrapped payload (the captured error for
  \<^verbatim>\<open>error\<close>), whatever the input record had under that name. Every other key is there if
  and only if the input record has it, with the same value; for an input record that is an
  object, \<open>js_spread\<close> gives its own fields.
\<close>

theorem enriched_record_fields:
  assumes "hoistCumulusMessageDetails c r = Some (Inr (m, log))"
  shows "(\<forall>k\<in>set enrichment_keys. js_in k m)
         \<and> (\<exists>err payload d.
               unwrap_loop c JNull r = Some (Inr (err, payload))
               \<and> event_details c payload = Inr (d, log)
               \<and> field m ''collectionId'' = d_collectionId d
               \<and> field m ''providerId'' = d_providerId d
               \<and> field m ''granules'' = d_granules d
               \<and> field m ''executionArn'' = d_executionArn d
               \<and> field m ''stateMachineArn'' = d_stateMachineArn d
               \<and> field m ''status'' = d_status d
               \<and> field m ''time'' = d_time d
               \<and> field m ''error'' = err)
         \<and> (\<forall>k. k \<notin> set enrichment_keys \<longrightarrow>
               js_in k m = js_in k (JObj (js_spread r))
               \<and> field m k = field (JObj (js_spread r)) k)"
proof -
  from hoist_returns [OF assms] obtain err p d where
    u: "unwrap_loop c JNull r = Some (Inr (err, p))" and e: "event_details c p = Inr (d, log)"
    and m: "m = enriched r (d \<lparr> d_error := err \<rparr>)"
    by blast
  have 1: "\<forall>k\<in>set enrichment_keys. js_in k m"
    unfolding m by (simp add: js_in_enriched)
  have 3: "\<forall>k. k \<notin> set enrichment_keys \<longrightarrow>
               js_in k m = js_in k (JObj (js_spread r))
               \<and> field m k = field (JObj (js_spread r)) k"
    unfolding m by (simp add: js_in_enriched enriched_other)
  have 2: "field m ''collectionId'' = d_collectionId d" "field m ''providerId'' = d_providerId d"
    "field m ''granules'' = d_granules d" "field m ''executionArn'' = d_executionArn d"
    "field m ''stateMachineArn'' = d_stateMachineArn d" "field m ''status'' = d_status d"
    "field m ''time'' = d_time d" "field m ''error'' = err"
    unfolding m by (simp_all add: field_enriched)
  from u e 2 have "\<exists>err payload d.
               unwrap_loop c JNull r = Some (Inr (err, payload))
               \<and> event_details c payload = Inr (d, log)
               \<and> field m ''collectionId'' = d_collectionId d
               \<and> field m ''providerId'' = d_providerId d
               \<and> field m ''granules'' = d_granules d
               \<and> field m ''executionArn'' = d_executionArn d
               \<and> field m ''stateMachineArn'' = d_stateMachineArn d
               \<and> field m ''status'' = d_status d
               \<and> field m ''time'' = d_time d
               \<and> field m ''error'' = err"
    by blast
  with 1 3 show ?thesis by blast
qed

text \<open>
  The sample record of run 1 comes with a \<^verbatim>\<open>time\<close> of its own, \<^verbatim>\<open>stale\<close>: the returned
  record has the time of the event instead, all eight fields, and the \<^verbatim>\<open>messageId\<close> and
  \<^verbatim>\<open>body\<close> of the input.
\<close>

theorem enriched_record_fields_witness:
  "(\<exists>m log. hoistCumulusMessageDetails sample_collab sample_record_run1 = Some (Inr (m, log))
      \<and> js_in ''collectionId'' m \<and> js_in ''providerId'' m \<and> js_in ''granules'' m
      \<and> js_in ''executionArn'' m \<and> js_in ''stateMachineArn'' m \<and> js_in ''status'' m
      \<and> js_in ''time'' m \<and> js_in ''error'' m
      \<and> field m ''time'' = JStr ''2024-03-05T10:11:12Z''
      \<and> field m ''stateMachineArn'' = JNull
      \<and> field m ''messageId'' = field sample_record_run1 ''messageId''
      \<and> field m ''body'' = field sample_record_run1 ''body'')
   \<and> field sample_record_run1 ''time'' = JStr ''stale''"
proof -
  from enriched_record_fields [OF sample_hoist_run1]
  have "\<forall>k\<in>set enrichment_keys. js_in k (JObj [(''messageId'', JStr ''m1''), (''body'', JStr sample_text_run1),
                      (''error'', JStr ''boom''), (''time'', JStr ''2024-03-05T10:11:12Z''),
                      (''collectionId'', JStr ''MOD09___006''), (''providerId'', JStr ''prov1''),
                      (''granules'', JArr [JStr ''G1'', JNull]),
                      (''executionArn'', JStr ''run1''), (''stateMachineArn'', JNull),
                      (''status'', JStr ''FAILED'')])"
    by blast
  with sample_hoist_run1 show ?thesis
    by (simp add: enrichment_keys_def sample_record_run1_def)
qed

end
